theory Spec2Isabelle
  imports Complex_Main
begin

section \<open>The geofence checker front end (frontend/src/App.js)\<close>

text \<open>
  App.js holds two successive versions of one React component: the first ("simple") one,
  and the second ("enhanced") one, which adds a sample history, continuous monitoring, a
  progress bar and confidence colours. Both are embedded here.

  How the component is modelled.
  \<^item> The \<open>useState\<close> variables are the fields of a record. A setter call writes a
    field of the \<^emph>\<open>current\<close> state; a functional updater (\<open>setX(prev => ...)\<close>) reads
    the current state as well.
  \<^item> A handler is a closure of one render: every state variable it mentions by name is
    the constant of that render. So a handler takes two states: \<open>r\<close>, the render it
    was created in (what it reads), and \<open>s\<close>, the current state (what its setters
    write). A handler started by a click on the page belongs to the latest render, so
    there \<open>r = s\<close>; a callback handed to the browser keeps the render it was created in.
  \<^item> What lives outside the React state (the \<open>locatingTimer\<close> ref, the browser's
    running intervals and position watches, \<open>navigator.geolocation\<close>) is a second
    record, the environment, threaded through the handlers that touch it.
  \<^item> An \<open>async\<close> handler is split at its \<open>await\<close> of the network: the part before
    returns the request to send (or none), the part after takes the outcome of the
    request. A \<open>throw\<close> is the \<open>Inl\<close> of a sum, carrying the \<open>message\<close> of the Error.
  \<^item> Numbers that are only carried (coordinates, accuracy, distance) are reals.
  \<^item> A string is the list of the bytes of its UTF-8 encoding.
\<close>

subsection \<open>Data\<close>

text \<open>\<open>position.coords\<close> as the location provider delivers it.\<close>

record position =
  latitude :: real
  longitude :: real
  coords_accuracy :: real

text \<open>The object \<open>newLocation\<close> of the enhanced version.\<close>

record sample =
  lat :: real
  lng :: real
  accuracy :: real
  timestamp :: int

text \<open>The object of the first version's \<open>setUserLocation\<close>: no timestamp.\<close>

record simple_location =
  simple_lat :: real
  simple_lng :: real
  simple_accuracy :: real

text \<open>The building as the backend returns it (\<open>data\<close> of \<open>searchBuilding\<close>).\<close>

record building_data =
  building_name :: string
  formatted_address :: string
  building_lat :: real
  building_lng :: real
  building_type :: "string option"

record location_quality =
  quality_confidence :: string
  quality_accuracy :: "real option"
  stability :: "string option"

text \<open>The verification result as the backend returns it (\<open>data\<close> of \<open>checkLocation\<close>).\<close>

record check_result =
  is_within_range :: bool
  distance :: real
  confidence_level :: "string option"
  quality :: "location_quality option"

text \<open>The state variables of the enhanced component, in the order of their \<open>useState\<close>.\<close>

record app_state =
  buildingName :: string
  city :: string
  country :: string
  building :: "building_data option"
  userLocation :: "sample option"
  locationHistory :: "sample list"
  checkResult :: "check_result option"
  loading :: bool
  error :: "string option"
  mapUrl :: "string option"
  watchId :: "nat option"
  isMonitoring :: bool
  locatingProgress :: int

text \<open>
  The environment: the ref \<open>locatingTimer.current\<close>, whether \<open>navigator.geolocation\<close>
  exists, the intervals the browser is running (identifier and period in milliseconds),
  the position watches it is running (identifier and the render whose callbacks were
  registered), and the next identifiers \<open>setInterval\<close> and \<open>watchPosition\<close> hand out.
\<close>

record env =
  locatingTimer :: "nat option"
  geolocation :: bool
  intervals :: "(nat \<times> nat) list"
  watches :: "(nat \<times> app_state) list"
  next_interval :: nat
  next_watch :: nat

definition initial_state :: app_state where
  "initial_state =
     \<lparr>buildingName = [], city = [], country = [], building = None, userLocation = None,
      locationHistory = [], checkResult = None, loading = False, error = None,
      mapUrl = None, watchId = None, isMonitoring = False, locatingProgress = 0\<rparr>"

definition initial_env :: env where
  "initial_env =
     \<lparr>locatingTimer = None, geolocation = True, intervals = [], watches = [],
      next_interval = 1, next_watch = 1\<rparr>"

definition MAX_HISTORY_POINTS :: int where
  "MAX_HISTORY_POINTS = 10"

subsection \<open>JavaScript built-ins the component uses\<close>

text \<open>
  \<open>xs.slice(start)\<close>: a negative start counts from the end and is clamped at the
  beginning, a start beyond the end gives the empty array.
\<close>

definition slice_from :: "int \<Rightarrow> 'a list \<Rightarrow> 'a list" where
  "slice_from start xs =
     (let len = int (length xs);
          k = (if start < 0 then max (len + start) 0 else min start len)
      in drop (nat k) xs)"

text \<open>\<open>s.includes(sub)\<close>: \<open>sub\<close> occurs in \<open>s\<close> as a contiguous run.\<close>

fun starts_with :: "'a list \<Rightarrow> 'a list \<Rightarrow> bool" where
  "starts_with s [] = True"
| "starts_with [] (c # sub) = False"
| "starts_with (d # s) (c # sub) = (d = c \<and> starts_with s sub)"

fun includes_js :: "'a list \<Rightarrow> 'a list \<Rightarrow> bool" where
  "includes_js [] sub = (sub = [])"
| "includes_js (d # s) sub = (starts_with (d # s) sub \<or> includes_js s sub)"

text \<open>\<open>clearInterval(id)\<close> and \<open>clearWatch(id)\<close>; \<open>clearInterval(null)\<close> does nothing.\<close>

definition clearInterval :: "nat option \<Rightarrow> env \<Rightarrow> env" where
  "clearInterval h e =
     (case h of
        None \<Rightarrow> e
      | Some i \<Rightarrow> e\<lparr>intervals := filter (\<lambda>p. fst p \<noteq> i) (intervals e)\<rparr>)"

definition clearWatch :: "nat \<Rightarrow> env \<Rightarrow> env" where
  "clearWatch i e = e\<lparr>watches := filter (\<lambda>p. fst p \<noteq> i) (watches e)\<rparr>"

definition interval_running :: "nat \<Rightarrow> env \<Rightarrow> bool" where
  "interval_running i e = (map_of (intervals e) i \<noteq> None)"

definition watch_running :: "nat \<Rightarrow> env \<Rightarrow> bool" where
  "watch_running i e = (map_of (watches e) i \<noteq> None)"

subsection \<open>The enhanced version: progress bar\<close>

text \<open>
  \<open>startLocatingProgress\<close>: progress to 0, and a new interval of 200 ms whose identifier
  goes into the ref.
\<close>

definition startLocatingProgress :: "app_state \<times> env \<Rightarrow> app_state \<times> env" where
  "startLocatingProgress w =
     (case w of (s, e) \<Rightarrow>
        (s\<lparr>locatingProgress := 0\<rparr>,
         e\<lparr>locatingTimer := Some (next_interval e),
           intervals := (next_interval e, 200) # intervals e,
           next_interval := Suc (next_interval e)\<rparr>))"

text \<open>
  The interval's callback: one functional update of the progress, which at 100 or more
  clears the interval the ref names and stays at 100, and otherwise adds 10.
\<close>

definition locating_tick :: "app_state \<times> env \<Rightarrow> app_state \<times> env" where
  "locating_tick w =
     (case w of (s, e) \<Rightarrow>
        if locatingProgress s \<ge> 100
        then (s\<lparr>locatingProgress := 100\<rparr>, clearInterval (locatingTimer e) e)
        else (s\<lparr>locatingProgress := locatingProgress s + 10\<rparr>, e))"

text \<open>The browser fires interval \<open>i\<close>: its callback runs only while it is running.\<close>

definition interval_fires :: "nat \<Rightarrow> app_state \<times> env \<Rightarrow> app_state \<times> env" where
  "interval_fires i w = (if interval_running i (snd w) then locating_tick w else w)"

definition stopLocatingProgress :: "app_state \<times> env \<Rightarrow> app_state \<times> env" where
  "stopLocatingProgress w =
     (case w of (s, e) \<Rightarrow>
        (s\<lparr>locatingProgress := 100\<rparr>, clearInterval (locatingTimer e) e))"

subsection \<open>The enhanced version: one-shot acquisition\<close>

definition newLocation :: "position \<Rightarrow> int \<Rightarrow> sample" where
  "newLocation p now =
     \<lparr>lat = latitude p, lng = longitude p, accuracy = coords_accuracy p, timestamp = now\<rparr>"

text \<open>The functional update both success callbacks pass to \<open>setLocationHistory\<close>.\<close>

definition add_to_history :: "sample \<Rightarrow> sample list \<Rightarrow> sample list" where
  "add_to_history x prev = slice_from (- MAX_HISTORY_POINTS) (prev @ [x])"

text \<open>
  \<open>getUserLocation\<close> up to its call of \<open>getCurrentPosition\<close>, whose two callbacks are the
  next two definitions. \<open>now\<close> is what \<open>Date.now()\<close> returns in the callback.
\<close>

definition getUserLocation :: "app_state \<times> env \<Rightarrow> app_state \<times> env" where
  "getUserLocation w =
     (case w of (s, e) \<Rightarrow>
        if \<not> geolocation e
        then (s\<lparr>error := None,
                error := Some ''Geolocation is not supported by your browser''\<rparr>, e)
        else startLocatingProgress (s\<lparr>error := None, loading := True\<rparr>, e))"

definition getUserLocation_success ::
    "position \<Rightarrow> int \<Rightarrow> app_state \<times> env \<Rightarrow> app_state \<times> env" where
  "getUserLocation_success p now w =
     (case w of (s, e) \<Rightarrow>
        stopLocatingProgress
          (s\<lparr>userLocation := Some (newLocation p now),
             locationHistory := add_to_history (newLocation p now) (locationHistory s),
             loading := False\<rparr>, e))"

definition getUserLocation_error :: "string \<Rightarrow> app_state \<times> env \<Rightarrow> app_state \<times> env" where
  "getUserLocation_error msg w =
     (case w of (s, e) \<Rightarrow>
        stopLocatingProgress
          (s\<lparr>error := Some (''Error getting location: '' @ msg), loading := False\<rparr>, e))"

subsection \<open>The enhanced version: continuous monitoring\<close>

text \<open>
  \<open>stopLocationMonitoring\<close> of render \<open>r\<close>: it tests and clears the \<open>watchId\<close> of its
  own render.
\<close>

definition stopLocationMonitoring :: "app_state \<Rightarrow> app_state \<times> env \<Rightarrow> app_state \<times> env" where
  "stopLocationMonitoring r w =
     (case w of (s, e) \<Rightarrow>
        (case watchId r of
           Some i \<Rightarrow> (s\<lparr>watchId := None, isMonitoring := False\<rparr>, clearWatch i e)
         | None \<Rightarrow> (s\<lparr>isMonitoring := False\<rparr>, e)))"

text \<open>The two callbacks \<open>startLocationMonitoring\<close> of render \<open>r\<close> gives to \<open>watchPosition\<close>.\<close>

definition watch_success :: "position \<Rightarrow> int \<Rightarrow> app_state \<times> env \<Rightarrow> app_state \<times> env" where
  "watch_success p now w =
     (case w of (s, e) \<Rightarrow>
        (s\<lparr>userLocation := Some (newLocation p now),
           locationHistory := add_to_history (newLocation p now) (locationHistory s)\<rparr>, e))"

definition watch_error :: "app_state \<Rightarrow> string \<Rightarrow> app_state \<times> env \<Rightarrow> app_state \<times> env" where
  "watch_error r msg w =
     (case w of (s, e) \<Rightarrow>
        stopLocationMonitoring r
          (s\<lparr>error := Some (''Error monitoring location: '' @ msg)\<rparr>, e))"

definition startLocationMonitoring :: "app_state \<Rightarrow> app_state \<times> env \<Rightarrow> app_state \<times> env" where
  "startLocationMonitoring r w =
     (case w of (s, e) \<Rightarrow>
        if watchId r \<noteq> None then (s, e)
        else if \<not> geolocation e
        then (s\<lparr>error := None, isMonitoring := True,
                error := Some ''Geolocation is not supported by your browser'',
                isMonitoring := False\<rparr>, e)
        else (s\<lparr>error := None, isMonitoring := True, watchId := Some (next_watch e)\<rparr>,
              e\<lparr>watches := (next_watch e, r) # watches e,
                next_watch := Suc (next_watch e)\<rparr>))"

text \<open>
  The browser reports on watch \<open>i\<close>: the callbacks registered for it run, with the render
  they were created in; a watch that is not running reports nothing.
\<close>

definition watch_reports_position ::
    "nat \<Rightarrow> position \<Rightarrow> int \<Rightarrow> app_state \<times> env \<Rightarrow> app_state \<times> env" where
  "watch_reports_position i p now w =
     (case map_of (watches (snd w)) i of
        None \<Rightarrow> w
      | Some r \<Rightarrow> watch_success p now w)"

definition watch_reports_error ::
    "nat \<Rightarrow> string \<Rightarrow> app_state \<times> env \<Rightarrow> app_state \<times> env" where
  "watch_reports_error i msg w =
     (case map_of (watches (snd w)) i of
        None \<Rightarrow> w
      | Some r \<Rightarrow> watch_error r msg w)"

text \<open>A click on a button of the page runs the handler of the latest render.\<close>

definition click_startLocationMonitoring :: "app_state \<times> env \<Rightarrow> app_state \<times> env" where
  "click_startLocationMonitoring w = startLocationMonitoring (fst w) w"

definition click_stopLocationMonitoring :: "app_state \<times> env \<Rightarrow> app_state \<times> env" where
  "click_stopLocationMonitoring w = stopLocationMonitoring (fst w) w"

subsection \<open>Samples arriving\<close>

text \<open>
  A sample reaches the history either through the success callback of a one-shot
  acquisition or through the success callback of the watch.
\<close>

datatype arrival = One_shot position int | Monitoring_update position int

fun sample_of :: "arrival \<Rightarrow> sample" where
  "sample_of (One_shot p now) = newLocation p now"
| "sample_of (Monitoring_update p now) = newLocation p now"

fun deliver :: "app_state \<times> env \<Rightarrow> arrival \<Rightarrow> app_state \<times> env" where
  "deliver w (One_shot p now) = getUserLocation_success p now w"
| "deliver w (Monitoring_update p now) = watch_success p now w"

subsection \<open>Requests to the backend\<close>

text \<open>
  The body of a request is \<open>JSON.stringify\<close> of an object literal; it is kept as the JSON
  value, an object being the list of its properties in the order they were written.
\<close>

datatype json =
  JNull | JBool bool | JNumber real | JString string | JArray "json list"
  | JObject "(string \<times> json) list"

record request =
  url :: string
  http_method :: string
  body :: json

text \<open>\<open>JSON.stringify\<close> leaves out every property whose value is \<open>undefined\<close> (here \<open>None\<close>).\<close>

fun stringify_object :: "(string \<times> json option) list \<Rightarrow> (string \<times> json) list" where
  "stringify_object [] = []"
| "stringify_object ((k, None) # fs) = stringify_object fs"
| "stringify_object ((k, Some j) # fs) = (k, j) # stringify_object fs"

text \<open>The property \<open>k\<close> of a JSON object; \<open>None\<close> when the object does not have it.\<close>

fun property :: "string \<Rightarrow> json \<Rightarrow> json option" where
  "property k (JObject fs) = map_of fs k"
| "property k JNull = None"
| "property k (JBool x) = None"
| "property k (JNumber x) = None"
| "property k (JString x) = None"
| "property k (JArray x) = None"

text \<open>\<open>x || undefined\<close> for a string \<open>x\<close>: the empty string is falsy.\<close>

definition or_undefined :: "string \<Rightarrow> json option" where
  "or_undefined x = (if x = [] then None else Some (JString x))"

definition sample_json :: "sample \<Rightarrow> json" where
  "sample_json x =
     JObject [(''lat'', JNumber (lat x)), (''lng'', JNumber (lng x)),
              (''accuracy'', JNumber (accuracy x)),
              (''timestamp'', JNumber (of_int (timestamp x)))]"

definition API_URL :: string where
  "API_URL = ''http://localhost:8000/api''"

text \<open>
  What the JavaScript engine decides and the component does not: how a number reads as a
  string, and the message of the TypeError for reading a property of \<open>null\<close>.
\<close>

record engine =
  number_string :: "real \<Rightarrow> string"
  null_property_error :: string

text \<open>
  What comes back from \<open>fetch\<close> and \<open>response.json()\<close>: \<open>fetch\<close> rejects (the message of
  its error); the response is not ok and \<open>response.json()\<close> rejects (the message of its
  error) or gives a JSON value; the response is ok and \<open>response.json()\<close> rejects or
  gives the data.
\<close>

datatype 'a outcome =
  Fetch_rejects string | Not_ok_unreadable string | Not_ok json | Ok_unreadable string
  | Ok_data 'a

text \<open>Whether a JSON value is truthy, as \<open>||\<close> tests it.\<close>

fun js_truthy :: "json \<Rightarrow> bool" where
  "js_truthy JNull = False"
| "js_truthy (JBool b) = b"
| "js_truthy (JNumber x) = (x \<noteq> 0)"
| "js_truthy (JString x) = (x \<noteq> [])"
| "js_truthy (JArray xs) = True"
| "js_truthy (JObject fs) = True"

text \<open>
  The string a JSON value becomes as the message of \<open>new Error(value)\<close>: a string is
  itself, an object is "[object Object]", an array is its elements joined by commas,
  \<open>null\<close> among them as the empty string.
\<close>

fun js_string :: "engine \<Rightarrow> json \<Rightarrow> string"
  and js_join :: "engine \<Rightarrow> json list \<Rightarrow> string"
  and js_element :: "engine \<Rightarrow> json \<Rightarrow> string" where
  "js_string eng JNull = ''null''"
| "js_string eng (JBool b) = (if b then ''true'' else ''false'')"
| "js_string eng (JNumber x) = number_string eng x"
| "js_string eng (JString x) = x"
| "js_string eng (JArray xs) = js_join eng xs"
| "js_string eng (JObject fs) = ''[object Object]''"
| "js_join eng [] = []"
| "js_join eng [x] = js_element eng x"
| "js_join eng (x # y # ys) = js_element eng x @ '','' @ js_join eng (y # ys)"
| "js_element eng JNull = []"
| "js_element eng (JBool b) = js_string eng (JBool b)"
| "js_element eng (JNumber x) = js_string eng (JNumber x)"
| "js_element eng (JString x) = js_string eng (JString x)"
| "js_element eng (JArray xs) = js_string eng (JArray xs)"
| "js_element eng (JObject fs) = js_string eng (JObject fs)"

text \<open>
  \<open>errorData.detail\<close> for a body that is not \<open>null\<close>: the property of an object (of
  a key written twice in the JSON text, the last), \<open>undefined\<close> for every other value.
\<close>

fun detail_of :: "json \<Rightarrow> json option" where
  "detail_of (JObject fs) = map_of (rev fs) ''detail''"
| "detail_of JNull = None"
| "detail_of (JBool x) = None"
| "detail_of (JNumber x) = None"
| "detail_of (JString x) = None"
| "detail_of (JArray x) = None"

text \<open>
  \<open>throw new Error(errorData.detail || fallback)\<close>, as the message that reaches the
  \<open>catch\<close>: reading \<open>detail\<close> of \<open>null\<close> throws the engine's TypeError instead.
\<close>

definition detail_or :: "engine \<Rightarrow> json \<Rightarrow> string \<Rightarrow> string" where
  "detail_or eng errorData fallback =
     (if errorData = JNull then null_property_error eng
      else case detail_of errorData of
             None \<Rightarrow> fallback
           | Some d \<Rightarrow> if js_truthy d then js_string eng d else fallback)"

text \<open>
  The \<open>try\<close> block from \<open>fetch\<close> to the second \<open>response.json()\<close>, with the fallback
  message of the handler: \<open>Inl\<close> is the message of what was thrown.
\<close>

definition await_response :: "engine \<Rightarrow> string \<Rightarrow> 'a outcome \<Rightarrow> string + 'a" where
  "await_response eng fallback out =
     (case out of
        Fetch_rejects m \<Rightarrow> Inl m
      | Not_ok_unreadable m \<Rightarrow> Inl m
      | Not_ok errorData \<Rightarrow> Inl (detail_or eng errorData fallback)
      | Ok_unreadable m \<Rightarrow> Inl m
      | Ok_data x \<Rightarrow> Inr x)"

text \<open>
  \<open>x.trim()\<close>. A string is kept as the bytes of its UTF-8 encoding, so the white space
  and line terminators that \<open>trim\<close> removes are these byte sequences: U+0009 to U+000D,
  U+0020, U+00A0, U+1680, U+2000 to U+200A, U+2028, U+2029, U+202F, U+205F, U+3000 and
  U+FEFF.
\<close>

definition whitespace_utf8 :: "string list" where
  "whitespace_utf8 =
     [[CHR 0x09], [CHR 0x0A], [CHR 0x0B], [CHR 0x0C], [CHR 0x0D], [CHR 0x20],
      [CHR 0xC2, CHR 0xA0],
      [CHR 0xE1, CHR 0x9A, CHR 0x80],
      [CHR 0xE2, CHR 0x80, CHR 0x80], [CHR 0xE2, CHR 0x80, CHR 0x81],
      [CHR 0xE2, CHR 0x80, CHR 0x82], [CHR 0xE2, CHR 0x80, CHR 0x83],
      [CHR 0xE2, CHR 0x80, CHR 0x84], [CHR 0xE2, CHR 0x80, CHR 0x85],
      [CHR 0xE2, CHR 0x80, CHR 0x86], [CHR 0xE2, CHR 0x80, CHR 0x87],
      [CHR 0xE2, CHR 0x80, CHR 0x88], [CHR 0xE2, CHR 0x80, CHR 0x89],
      [CHR 0xE2, CHR 0x80, CHR 0x8A],
      [CHR 0xE2, CHR 0x80, CHR 0xA8], [CHR 0xE2, CHR 0x80, CHR 0xA9],
      [CHR 0xE2, CHR 0x80, CHR 0xAF],
      [CHR 0xE2, CHR 0x81, CHR 0x9F],
      [CHR 0xE3, CHR 0x80, CHR 0x80],
      [CHR 0xEF, CHR 0xBB, CHR 0xBF]]"

text \<open>
  The number of bytes of the first of the sequences \<open>ws\<close> that \<open>x\<close> starts with, 0 when
  it starts with none.
\<close>

definition leading :: "string list \<Rightarrow> string \<Rightarrow> nat" where
  "leading ws x =
     (case filter (\<lambda>w. w \<noteq> [] \<and> starts_with x w) ws of [] \<Rightarrow> 0 | w # _ \<Rightarrow> length w)"

function strip_leading :: "string list \<Rightarrow> string \<Rightarrow> string" where
  "strip_leading ws x =
     (if leading ws x = 0 then x else strip_leading ws (drop (leading ws x) x))"
  by pat_completeness auto
termination
proof (relation "measure (\<lambda>(ws, x). length x)")
  show "wf (measure (\<lambda>(ws, x). length x))" by simp
next
  fix ws :: "string list" and x :: string
  assume pos: "leading ws x \<noteq> 0"
  have "x \<noteq> []"
  proof
    assume "x = []"
    then have "filter (\<lambda>w. w \<noteq> [] \<and> starts_with x w) ws = []"
      by (auto simp: filter_empty_conv neq_Nil_conv)
    then have "leading ws x = 0" by (simp add: leading_def)
    with pos show False by simp
  qed
  with pos show "((ws, drop (leading ws x) x), (ws, x)) \<in> measure (\<lambda>(ws, x). length x)"
    by simp
qed

declare strip_leading.simps [simp del]

definition trimStart :: "string \<Rightarrow> string" where
  "trimStart x = strip_leading whitespace_utf8 x"

definition trimEnd :: "string \<Rightarrow> string" where
  "trimEnd x = rev (strip_leading (map rev whitespace_utf8) (rev x))"

definition trim :: "string \<Rightarrow> string" where
  "trim x = trimEnd (trimStart x)"

subsection \<open>The enhanced version: building lookup\<close>

definition building_request :: "string \<Rightarrow> string \<Rightarrow> string \<Rightarrow> request" where
  "building_request name c k =
     \<lparr>url = API_URL @ ''/building'', http_method = ''POST'',
      body = JObject (stringify_object
        [(''name'', Some (JString name)), (''city'', or_undefined c),
         (''country'', or_undefined k)])\<rparr>"

text \<open>\<open>searchBuilding\<close> of render \<open>r\<close> up to its \<open>fetch\<close>.\<close>

definition searchBuilding :: "app_state \<Rightarrow> app_state \<Rightarrow> app_state \<times> request option" where
  "searchBuilding r s =
     (if trim (buildingName r) = []
      then (s\<lparr>error := Some ''Please enter a building name''\<rparr>, None)
      else (s\<lparr>loading := True, error := None\<rparr>,
            Some (building_request (buildingName r) (city r) (country r))))"

text \<open>The OpenStreetMap link, a template literal of the two coordinates.\<close>

definition map_link :: "engine \<Rightarrow> building_data \<Rightarrow> string" where
  "map_link eng d =
     ''https://www.openstreetmap.org/#map=18/'' @ number_string eng (building_lat d) @ ''/''
       @ number_string eng (building_lng d)"

text \<open>\<open>searchBuilding\<close> from the outcome of its \<open>fetch\<close> on: \<open>try\<close>, \<open>catch\<close>, \<open>finally\<close>.\<close>

definition searchBuilding_finish ::
    "engine \<Rightarrow> building_data outcome \<Rightarrow> app_state \<Rightarrow> app_state" where
  "searchBuilding_finish eng out s =
     (case await_response eng ''Failed to find building'' out of
        Inr d \<Rightarrow>
          s\<lparr>building := Some d, checkResult := None, mapUrl := Some (map_link eng d),
            loading := False\<rparr>
      | Inl msg \<Rightarrow>
          s\<lparr>error := Some msg, building := None, mapUrl := None, loading := False\<rparr>)"

subsection \<open>The enhanced version: verification\<close>

text \<open>The \<open>location_history\<close> property: the last three samples, from three samples on.\<close>

definition history_hint :: "sample list \<Rightarrow> json option" where
  "history_hint h =
     (if length h \<ge> 3 then Some (JArray (map sample_json (slice_from (- 3) h))) else None)"

definition check_request :: "app_state \<Rightarrow> sample \<Rightarrow> request" where
  "check_request r u =
     \<lparr>url = API_URL @ ''/check-location'', http_method = ''POST'',
      body = JObject (stringify_object
        [(''building_name'', Some (JString (buildingName r))),
         (''city'', or_undefined (city r)),
         (''country'', or_undefined (country r)),
         (''user_location'', Some (sample_json u)),
         (''location_history'', history_hint (locationHistory r))])\<rparr>"

text \<open>\<open>checkLocation\<close> of render \<open>r\<close> up to its \<open>fetch\<close>.\<close>

definition checkLocation :: "app_state \<Rightarrow> app_state \<Rightarrow> app_state \<times> request option" where
  "checkLocation r s =
     (if building r = None \<or> userLocation r = None
      then (s\<lparr>error := Some ''Building and user location are required''\<rparr>, None)
      else (s\<lparr>loading := True, error := None\<rparr>,
            Some (check_request r (the (userLocation r)))))"

text \<open>\<open>checkLocation\<close> from the outcome of its \<open>fetch\<close> on.\<close>

definition checkLocation_finish ::
    "engine \<Rightarrow> check_result outcome \<Rightarrow> app_state \<Rightarrow> app_state" where
  "checkLocation_finish eng out s =
     (case await_response eng ''Failed to check location'' out of
        Inr d \<Rightarrow> s\<lparr>checkResult := Some d, loading := False\<rparr>
      | Inl msg \<Rightarrow> s\<lparr>error := Some msg, loading := False\<rparr>)"

subsection \<open>The enhanced version: confidence colour\<close>

text \<open>
  \<open>getConfidenceColor\<close>; the argument is \<open>checkResult.confidence_level\<close>, \<open>None\<close> when
  the result has no such property. The five colours are the five tiers.
\<close>

datatype tier = Tier_A | Tier_B | Tier_C | Tier_D | Tier_E

fun tier_colour :: "tier \<Rightarrow> string" where
  "tier_colour Tier_A = ''#4caf50''"
| "tier_colour Tier_B = ''#8bc34a''"
| "tier_colour Tier_C = ''#ffeb3b''"
| "tier_colour Tier_D = ''#ff9800''"
| "tier_colour Tier_E = ''#f44336''"

definition getConfidenceColor :: "string option \<Rightarrow> string" where
  "getConfidenceColor confidence =
     (case confidence of
        None \<Rightarrow> ''#f44336''
      | Some c \<Rightarrow>
          if c = [] then ''#f44336''
          else if includes_js c ''Definitely inside'' then ''#4caf50''
          else if includes_js c ''Likely inside'' then ''#8bc34a''
          else if includes_js c ''uncertain'' then ''#ffeb3b''
          else if includes_js c ''Likely outside'' then ''#ff9800''
          else ''#f44336'')"

subsection \<open>The confidence tiers as the specification words them\<close>

text \<open>
  The specification's \<open>severityTier\<close>, worded on containment as such: a string contains
  another when it is some prefix, the other string, and some suffix. The first rule that
  matches decides, and an absent string matches none.
\<close>

definition contains :: "string \<Rightarrow> string \<Rightarrow> bool" where
  "contains x sub = (\<exists>u v. x = u @ sub @ v)"

definition severityTier_spec :: "string option \<Rightarrow> tier" where
  "severityTier_spec confidence =
     (case confidence of
        None \<Rightarrow> Tier_E
      | Some x \<Rightarrow>
          if contains x ''Definitely inside'' then Tier_A
          else if contains x ''Likely inside'' then Tier_B
          else if contains x ''uncertain'' then Tier_C
          else if contains x ''Likely outside'' then Tier_D
          else Tier_E)"

subsection \<open>The options of the location requests\<close>

record position_options =
  enableHighAccuracy :: bool
  timeout :: nat
  maximumAge :: nat

text \<open>The third argument of \<open>getCurrentPosition\<close> and of \<open>watchPosition\<close>, enhanced version.\<close>

definition getUserLocation_options :: position_options where
  "getUserLocation_options = \<lparr>enableHighAccuracy = True, timeout = 15000, maximumAge = 0\<rparr>"

definition startLocationMonitoring_options :: position_options where
  "startLocationMonitoring_options =
     \<lparr>enableHighAccuracy = True, timeout = 15000, maximumAge = 0\<rparr>"

text \<open>The third argument of \<open>getCurrentPosition\<close>, first version.\<close>

definition getUserLocation_simple_options :: position_options where
  "getUserLocation_simple_options =
     \<lparr>enableHighAccuracy = True, timeout = 10000, maximumAge = 0\<rparr>"

subsection \<open>The first (simple) version\<close>

record simple_state =
  simple_buildingName :: string
  simple_city :: string
  simple_country :: string
  simple_building :: "building_data option"
  simple_userLocation :: "simple_location option"
  simple_checkResult :: "check_result option"
  simple_loading :: bool
  simple_error :: "string option"
  simple_mapUrl :: "string option"

definition searchBuilding_simple ::
    "simple_state \<Rightarrow> simple_state \<Rightarrow> simple_state \<times> request option" where
  "searchBuilding_simple r s =
     (if trim (simple_buildingName r) = []
      then (s\<lparr>simple_error := Some ''Please enter a building name''\<rparr>, None)
      else (s\<lparr>simple_loading := True, simple_error := None\<rparr>,
            Some (building_request (simple_buildingName r) (simple_city r) (simple_country r))))"

definition searchBuilding_simple_finish ::
    "engine \<Rightarrow> building_data outcome \<Rightarrow> simple_state \<Rightarrow> simple_state" where
  "searchBuilding_simple_finish eng out s =
     (case await_response eng ''Failed to find building'' out of
        Inr d \<Rightarrow>
          s\<lparr>simple_building := Some d, simple_checkResult := None,
            simple_mapUrl := Some (map_link eng d), simple_loading := False\<rparr>
      | Inl msg \<Rightarrow>
          s\<lparr>simple_error := Some msg, simple_building := None, simple_mapUrl := None,
            simple_loading := False\<rparr>)"

text \<open>\<open>getUserLocation\<close>; \<open>geo\<close> is whether \<open>navigator.geolocation\<close> exists.\<close>

definition getUserLocation_simple :: "bool \<Rightarrow> simple_state \<Rightarrow> simple_state" where
  "getUserLocation_simple geo s =
     (if \<not> geo
      then s\<lparr>simple_error := None,
             simple_error := Some ''Geolocation is not supported by your browser''\<rparr>
      else s\<lparr>simple_error := None, simple_loading := True\<rparr>)"

definition getUserLocation_simple_success :: "position \<Rightarrow> simple_state \<Rightarrow> simple_state" where
  "getUserLocation_simple_success p s =
     s\<lparr>simple_userLocation :=
         Some \<lparr>simple_lat = latitude p, simple_lng = longitude p,
               simple_accuracy = coords_accuracy p\<rparr>,
       simple_loading := False\<rparr>"

definition getUserLocation_simple_error :: "string \<Rightarrow> simple_state \<Rightarrow> simple_state" where
  "getUserLocation_simple_error msg s =
     s\<lparr>simple_error := Some (''Error getting location: '' @ msg), simple_loading := False\<rparr>"

definition check_request_simple :: "simple_state \<Rightarrow> simple_location \<Rightarrow> request" where
  "check_request_simple r u =
     \<lparr>url = API_URL @ ''/check-location'', http_method = ''POST'',
      body = JObject (stringify_object
        [(''building_name'', Some (JString (simple_buildingName r))),
         (''city'', or_undefined (simple_city r)),
         (''country'', or_undefined (simple_country r)),
         (''user_lat'', Some (JNumber (simple_lat u))),
         (''user_lng'', Some (JNumber (simple_lng u)))])\<rparr>"

definition checkLocation_simple ::
    "simple_state \<Rightarrow> simple_state \<Rightarrow> simple_state \<times> request option" where
  "checkLocation_simple r s =
     (if simple_building r = None \<or> simple_userLocation r = None
      then (s\<lparr>simple_error := Some ''Building and user location are required''\<rparr>, None)
      else (s\<lparr>simple_loading := True, simple_error := None\<rparr>,
            Some (check_request_simple r (the (simple_userLocation r)))))"

definition checkLocation_simple_finish ::
    "engine \<Rightarrow> check_result outcome \<Rightarrow> simple_state \<Rightarrow> simple_state" where
  "checkLocation_simple_finish eng out s =
     (case await_response eng ''Failed to check location'' out of
        Inr d \<Rightarrow> s\<lparr>simple_checkResult := Some d, simple_loading := False\<rparr>
      | Inl msg \<Rightarrow> s\<lparr>simple_error := Some msg, simple_loading := False\<rparr>)"

text \<open>
  What a state of the enhanced version is in terms of the first version: the nine state
  variables both have, the sample without its timestamp.
\<close>

definition simple_sample :: "sample \<Rightarrow> simple_location" where
  "simple_sample u = \<lparr>simple_lat = lat u, simple_lng = lng u, simple_accuracy = accuracy u\<rparr>"

definition simple_view :: "app_state \<Rightarrow> simple_state" where
  "simple_view s =
     \<lparr>simple_buildingName = buildingName s, simple_city = city s,
      simple_country = country s, simple_building = building s,
      simple_userLocation = map_option simple_sample (userLocation s),
      simple_checkResult = checkResult s, simple_loading = loading s,
      simple_error = error s, simple_mapUrl = mapUrl s\<rparr>"

subsection \<open>Scenarios\<close>

text \<open>
  Monitoring is started from the initial state, the watch reports one position, and then
  an error.
\<close>

definition scenario_position :: position where
  "scenario_position = \<lparr>latitude = 48, longitude = 11, coords_accuracy = 5\<rparr>"

definition monitoring_started :: "app_state \<times> env" where
  "monitoring_started = click_startLocationMonitoring (initial_state, initial_env)"

definition monitoring_sampled :: "app_state \<times> env" where
  "monitoring_sampled = watch_reports_position 1 scenario_position 1000 monitoring_started"

definition monitoring_failed :: "app_state \<times> env" where
  "monitoring_failed = watch_reports_error 1 ''Timeout expired'' monitoring_sampled"

text \<open>A state with a resolved building, a current sample and four samples of history.\<close>

definition scenario_building :: building_data where
  "scenario_building =
     \<lparr>building_name = ''Tower'', formatted_address = ''1 Main St'', building_lat = 48,
      building_lng = 11, building_type = None\<rparr>"

definition scenario_sample :: "int \<Rightarrow> sample" where
  "scenario_sample n = \<lparr>lat = 48, lng = 11, accuracy = 5, timestamp = n\<rparr>"

definition ready_state :: app_state where
  "ready_state =
     initial_state\<lparr>buildingName := ''Tower'', city := ''Munich'',
       building := Some scenario_building, userLocation := Some (scenario_sample 4),
       locationHistory :=
         [scenario_sample 1, scenario_sample 2, scenario_sample 3, scenario_sample 4]\<rparr>"

subsection \<open>The page\<close>

text \<open>
  The component as the user and the browser drive it. The world is the state, the
  environment and what the component is waiting for: the reply to a building lookup, the
  reply to a verification, the callback of a one-shot acquisition.

  Two further fields are history variables, which no handler reads: \<open>lookups\<close> counts
  the building lookups that have succeeded, and \<open>result_epoch\<close> is the value \<open>lookups\<close>
  had when the request was sent whose reply is the stored result. A pending verification
  carries the value of \<open>lookups\<close> at the time it was sent to the same end.
\<close>

datatype pending = Lookup_pending | Check_pending nat | Acquisition_pending

record world =
  ui :: app_state
  browser :: env
  waiting :: "pending list"
  lookups :: nat
  result_epoch :: nat

text \<open>
  What can happen: the user types into one of the three inputs or clicks one of the five
  buttons, a reply arrives, the acquisition calls one of its callbacks, a watch reports,
  an interval fires.
\<close>

datatype event =
    Type_buildingName string
  | Type_city string
  | Type_country string
  | Click_searchBuilding
  | Click_getUserLocation
  | Click_startLocationMonitoring
  | Click_stopLocationMonitoring
  | Click_checkLocation
  | Lookup_replies "building_data outcome"
  | Check_replies "check_result outcome"
  | Acquisition_succeeds position int
  | Acquisition_fails string
  | Watch_succeeds nat position int
  | Watch_fails nat string
  | Interval_fires nat

text \<open>The epoch of the first pending verification, if there is one.\<close>

fun pending_check :: "pending list \<Rightarrow> nat option" where
  "pending_check [] = None"
| "pending_check (Check_pending k # ps) = Some k"
| "pending_check (Lookup_pending # ps) = pending_check ps"
| "pending_check (Acquisition_pending # ps) = pending_check ps"

text \<open>
  The component mounts: its effect calls \<open>getUserLocation\<close> in the initial state, in the
  environment \<open>e\<close>.
\<close>

definition mount :: "env \<Rightarrow> world" where
  "mount e =
     \<lparr>ui = fst (getUserLocation (initial_state, e)),
      browser = snd (getUserLocation (initial_state, e)),
      waiting = (if geolocation e then [Acquisition_pending] else []),
      lookups = 0, result_epoch = 0\<rparr>"

text \<open>
  One event. The page decides which events can happen: the three inputs and the buttons
  of \<open>searchBuilding\<close>, \<open>getUserLocation\<close> and \<open>checkLocation\<close> are
  \<open>disabled={loading}\<close>; the button of \<open>checkLocation\<close> is rendered only with a building
  and a current sample; the start button is rendered only while \<open>isMonitoring\<close> is false
  and the stop button only while it is true. A reply or a callback comes only for
  something the component is waiting for. An event that cannot happen leaves the world
  as it is.
\<close>

fun step :: "engine \<Rightarrow> world \<Rightarrow> event \<Rightarrow> world" where
  "step eng w (Type_buildingName x) =
     (if loading (ui w) then w else w\<lparr>ui := (ui w)\<lparr>buildingName := x\<rparr>\<rparr>)"
| "step eng w (Type_city x) =
     (if loading (ui w) then w else w\<lparr>ui := (ui w)\<lparr>city := x\<rparr>\<rparr>)"
| "step eng w (Type_country x) =
     (if loading (ui w) then w else w\<lparr>ui := (ui w)\<lparr>country := x\<rparr>\<rparr>)"
| "step eng w Click_searchBuilding =
     (if loading (ui w) then w
      else w\<lparr>ui := fst (searchBuilding (ui w) (ui w)),
             waiting := (case snd (searchBuilding (ui w) (ui w)) of
                           None \<Rightarrow> waiting w
                         | Some q \<Rightarrow> waiting w @ [Lookup_pending])\<rparr>)"
| "step eng w Click_getUserLocation =
     (if loading (ui w) then w
      else w\<lparr>ui := fst (getUserLocation (ui w, browser w)),
             browser := snd (getUserLocation (ui w, browser w)),
             waiting := (if geolocation (browser w) then waiting w @ [Acquisition_pending]
                         else waiting w)\<rparr>)"
| "step eng w Click_startLocationMonitoring =
     (if isMonitoring (ui w) then w
      else w\<lparr>ui := fst (click_startLocationMonitoring (ui w, browser w)),
             browser := snd (click_startLocationMonitoring (ui w, browser w))\<rparr>)"
| "step eng w Click_stopLocationMonitoring =
     (if \<not> isMonitoring (ui w) then w
      else w\<lparr>ui := fst (click_stopLocationMonitoring (ui w, browser w)),
             browser := snd (click_stopLocationMonitoring (ui w, browser w))\<rparr>)"
| "step eng w Click_checkLocation =
     (if loading (ui w) \<or> building (ui w) = None \<or> userLocation (ui w) = None then w
      else w\<lparr>ui := fst (checkLocation (ui w) (ui w)),
             waiting := (case snd (checkLocation (ui w) (ui w)) of
                           None \<Rightarrow> waiting w
                         | Some q \<Rightarrow> waiting w @ [Check_pending (lookups w)])\<rparr>)"
| "step eng w (Lookup_replies out) =
     (if Lookup_pending \<notin> set (waiting w) then w
      else w\<lparr>ui := searchBuilding_finish eng out (ui w),
             waiting := remove1 Lookup_pending (waiting w),
             lookups := (case out of Ok_data d \<Rightarrow> Suc (lookups w) | _ \<Rightarrow> lookups w)\<rparr>)"
| "step eng w (Check_replies out) =
     (case pending_check (waiting w) of
        None \<Rightarrow> w
      | Some k \<Rightarrow>
          w\<lparr>ui := checkLocation_finish eng out (ui w),
            waiting := remove1 (Check_pending k) (waiting w),
            result_epoch := (case out of Ok_data d \<Rightarrow> k | _ \<Rightarrow> result_epoch w)\<rparr>)"
| "step eng w (Acquisition_succeeds p now) =
     (if Acquisition_pending \<notin> set (waiting w) then w
      else w\<lparr>ui := fst (getUserLocation_success p now (ui w, browser w)),
             browser := snd (getUserLocation_success p now (ui w, browser w)),
             waiting := remove1 Acquisition_pending (waiting w)\<rparr>)"
| "step eng w (Acquisition_fails msg) =
     (if Acquisition_pending \<notin> set (waiting w) then w
      else w\<lparr>ui := fst (getUserLocation_error msg (ui w, browser w)),
             browser := snd (getUserLocation_error msg (ui w, browser w)),
             waiting := remove1 Acquisition_pending (waiting w)\<rparr>)"
| "step eng w (Watch_succeeds i p now) =
     w\<lparr>ui := fst (watch_reports_position i p now (ui w, browser w)),
       browser := snd (watch_reports_position i p now (ui w, browser w))\<rparr>"
| "step eng w (Watch_fails i msg) =
     w\<lparr>ui := fst (watch_reports_error i msg (ui w, browser w)),
       browser := snd (watch_reports_error i msg (ui w, browser w))\<rparr>"
| "step eng w (Interval_fires i) =
     w\<lparr>ui := fst (interval_fires i (ui w, browser w)),
       browser := snd (interval_fires i (ui w, browser w))\<rparr>"

text \<open>
  What holds of the world after every event: while \<open>loading\<close> is set the component waits
  for exactly one thing, and otherwise for nothing; a pending verification was sent
  after the last successful lookup; and so was the request of a stored result.
\<close>

definition settled :: "world \<Rightarrow> bool" where
  "settled w =
     ((if loading (ui w) then length (waiting w) = 1 else waiting w = [])
      \<and> (case pending_check (waiting w) of None \<Rightarrow> True | Some k \<Rightarrow> k = lookups w)
      \<and> (case checkResult (ui w) of None \<Rightarrow> True | Some res \<Rightarrow> result_epoch w = lookups w))"

text \<open>An engine for the scenarios.\<close>

definition scenario_engine :: engine where
  "scenario_engine =
     \<lparr>number_string = (\<lambda>x. ''0''),
      null_property_error = ''Cannot read properties of null''\<rparr>"

definition scenario_result :: check_result where
  "scenario_result =
     \<lparr>is_within_range = True, distance = 12,
      confidence_level = Some ''Definitely inside boundary'', quality = None\<rparr>"

text \<open>
  A visit to the page: the acquisition started on mounting succeeds, the user looks up
  "Tower" and asks for a verification; while that is pending the user tries to type and
  to search again; then the result arrives. In a second visit the user then looks up
  "Hall".
\<close>

definition other_building :: building_data where
  "other_building =
     \<lparr>building_name = ''Hall'', formatted_address = ''2 Side St'', building_lat = 40,
      building_lng = 9, building_type = None\<rparr>"

definition first_visit :: "event list" where
  "first_visit =
     [Acquisition_succeeds scenario_position 1000, Type_buildingName ''Tower'',
      Click_searchBuilding, Lookup_replies (Ok_data scenario_building),
      Click_checkLocation, Type_buildingName ''Hall'', Click_searchBuilding,
      Check_replies (Ok_data scenario_result)]"

definition second_visit :: "event list" where
  "second_visit =
     first_visit @
     [Type_buildingName ''Hall'', Click_searchBuilding, Lookup_replies (Ok_data other_building)]"

section \<open>Properties\<close>

subsection \<open>The history buffer\<close>

lemma slice_from_neg: "0 < n \<Longrightarrow> slice_from (- int n) xs = drop (length xs - n) xs"
proof -
  assume "0 < n"
  moreover have "nat (max (int (length xs) - int n) 0) = length xs - n"
    by arith
  ultimately show ?thesis by (simp add: slice_from_def)
qed

lemma add_to_history_eq: "add_to_history x prev = drop (Suc (length prev) - 10) (prev @ [x])"
  using slice_from_neg [of 10 "prev @ [x]"]
  by (simp add: add_to_history_def MAX_HISTORY_POINTS_def)

lemma deliver_history:
  "locationHistory (fst (deliver w a)) = add_to_history (sample_of a) (locationHistory (fst w))"
  by (cases a; cases w)
     (simp_all add: getUserLocation_success_def watch_success_def stopLocatingProgress_def)

lemma foldl_deliver_history:
  "length (locationHistory (fst w)) \<le> 10 \<Longrightarrow>
   locationHistory (fst (foldl deliver w as)) =
     drop (length (locationHistory (fst w)) + length as - 10)
       (locationHistory (fst w) @ map sample_of as)"
proof (induction as arbitrary: w)
  case Nil
  then show ?case by simp
next
  case (Cons a as)
  define h where "h = locationHistory (fst w)"
  define h' where "h' = locationHistory (fst (deliver w a))"
  define k where "k = Suc (length h) - 10"
  have hlen: "length h \<le> 10"
    using Cons.prems by (simp add: h_def)
  have h': "h' = drop k (h @ [sample_of a])"
    by (simp add: h'_def h_def k_def deliver_history add_to_history_eq)
  have len: "length h' = Suc (length h) - k"
    by (simp add: h')
  have "length h' \<le> 10"
    using hlen by (simp add: len k_def)
  then have "locationHistory (fst (foldl deliver (deliver w a) as)) =
          drop (length h' + length as - 10) (h' @ map sample_of as)"
    unfolding h'_def by (rule Cons.IH)
  also have "h' @ map sample_of as = drop k (h @ map sample_of (a # as))"
    using hlen by (simp add: h' k_def)
  also have "drop (length h' + length as - 10) (drop k (h @ map sample_of (a # as))) =
             drop (length h' + length as - 10 + k) (h @ map sample_of (a # as))"
    by (simp only: drop_drop)
  also have "length h' + length as - 10 + k = length h + length (a # as) - 10"
    using hlen by (simp add: len k_def)
  finally show ?case by (simp add: h_def)
qed

text \<open>
  C1. Starting from an empty history, after any sequence of samples has arrived, each
  through a one-shot acquisition or through a monitoring update, the history holds
  \<open>min N 10\<close> samples, and they are the last \<open>min N 10\<close> that arrived, in the order of
  their arrival.
\<close>

theorem history_is_last_ten:
  assumes "locationHistory s = []"
  shows "locationHistory (fst (foldl deliver (s, e) as)) =
           drop (length as - 10) (map sample_of as)
         \<and> length (locationHistory (fst (foldl deliver (s, e) as))) = min (length as) 10"
proof -
  have "locationHistory (fst (foldl deliver (s, e) as)) =
          drop (length as - 10) (map sample_of as)"
    using foldl_deliver_history [of "(s, e)" as] assms by simp
  then show ?thesis by simp
qed

text \<open>
  The scenario of twelve samples, arriving alternately through the watch and through
  one-shot acquisitions: the history ends with samples 3 to 12.
\<close>

theorem history_is_last_ten_witness:
  "locationHistory initial_state = []
   \<and> locationHistory (fst (foldl deliver (initial_state, initial_env)
        (map (\<lambda>n. if even n then One_shot \<lparr>latitude = real n, longitude = 0, coords_accuracy = 5\<rparr> (int n)
                   else Monitoring_update \<lparr>latitude = real n, longitude = 0, coords_accuracy = 5\<rparr> (int n))
           [1, 2, 3, 4, 5, 6, 7, 8, 9, 10, 11, 12])))
     = map (\<lambda>n. \<lparr>lat = real n, lng = 0, accuracy = 5, timestamp = int n\<rparr>)
         [3, 4, 5, 6, 7, 8, 9, 10, 11, 12]
   \<and> length (locationHistory (fst (foldl deliver (initial_state, initial_env)
        (map (\<lambda>n. if even n then One_shot \<lparr>latitude = real n, longitude = 0, coords_accuracy = 5\<rparr> (int n)
                   else Monitoring_update \<lparr>latitude = real n, longitude = 0, coords_accuracy = 5\<rparr> (int n))
           [1, 2, 3, 4, 5, 6, 7, 8, 9, 10, 11, 12])))) = 10"
  using history_is_last_ten [of initial_state initial_env
        "map (\<lambda>n. if even n then One_shot \<lparr>latitude = real n, longitude = 0, coords_accuracy = 5\<rparr> (int n)
                   else Monitoring_update \<lparr>latitude = real n, longitude = 0, coords_accuracy = 5\<rparr> (int n))
           [1, 2, 3, 4, 5, 6, 7, 8, 9, 10, 11, 12]"]
  by (simp add: initial_state_def newLocation_def)

subsection \<open>The verification request\<close>

lemma slice_from_last_three: "slice_from (- 3) (older @ [a, b, c]) = [a, b, c]"
  using slice_from_neg [of 3 "older @ [a, b, c]"] by simp

lemma inj_sample_json: "inj sample_json"
proof (rule injI)
  fix x y :: sample
  assume "sample_json x = sample_json y"
  then show "x = y" by (cases x; cases y) (simp add: sample_json_def)
qed

text \<open>
  C2. When a building is resolved and a current sample exists, \<open>checkLocation\<close> sends
  the request \<open>check_request\<close>. Its body always has the current sample, with its
  latitude, longitude, accuracy and timestamp, as \<open>user_location\<close>. With fewer than
  three samples of history the body has no \<open>location_history\<close> property at all; with
  three or more it has the last three samples of the history, each with its four
  fields, oldest first. Different samples are different JSON objects.
\<close>

theorem check_request_history_hint:
  assumes "building r \<noteq> None" and "userLocation r = Some u"
  shows "snd (checkLocation r s) = Some (check_request r u)
    \<and> property ''user_location'' (body (check_request r u))
        = Some (JObject [(''lat'', JNumber (lat u)), (''lng'', JNumber (lng u)),
                         (''accuracy'', JNumber (accuracy u)),
                         (''timestamp'', JNumber (of_int (timestamp u)))])
    \<and> (length (locationHistory r) < 3 \<longrightarrow>
         property ''location_history'' (body (check_request r u)) = None)
    \<and> (\<forall>older a b c. locationHistory r = older @ [a, b, c] \<longrightarrow>
         property ''location_history'' (body (check_request r u))
           = Some (JArray (map (\<lambda>x. JObject [(''lat'', JNumber (lat x)), (''lng'', JNumber (lng x)),
                                               (''accuracy'', JNumber (accuracy x)),
                                               (''timestamp'', JNumber (of_int (timestamp x)))])
                             [a, b, c])))
    \<and> inj sample_json"
proof -
  have c1: "snd (checkLocation r s) = Some (check_request r u)"
    using assms by (simp add: checkLocation_def)
  have c2: "property ''user_location'' (body (check_request r u))
        = Some (JObject [(''lat'', JNumber (lat u)), (''lng'', JNumber (lng u)),
                         (''accuracy'', JNumber (accuracy u)),
                         (''timestamp'', JNumber (of_int (timestamp u)))])"
    by (simp add: check_request_def or_undefined_def sample_json_def)
  have hint: "property ''location_history'' (body (check_request r u))
      = history_hint (locationHistory r)"
    by (cases "history_hint (locationHistory r)") (simp_all add: check_request_def or_undefined_def)
  have c3: "length (locationHistory r) < 3 \<longrightarrow>
         property ''location_history'' (body (check_request r u)) = None"
    unfolding hint by (simp add: history_hint_def)
  have c4: "\<forall>older a b c. locationHistory r = older @ [a, b, c] \<longrightarrow>
         property ''location_history'' (body (check_request r u))
           = Some (JArray (map (\<lambda>x. JObject [(''lat'', JNumber (lat x)), (''lng'', JNumber (lng x)),
                                               (''accuracy'', JNumber (accuracy x)),
                                               (''timestamp'', JNumber (of_int (timestamp x)))])
                             [a, b, c]))"
    unfolding hint by (simp add: history_hint_def slice_from_last_three sample_json_def)
  from c1 c2 c3 c4 inj_sample_json show ?thesis by blast
qed

text \<open>
  A history of four samples: the request carries samples 2, 3 and 4, and the current
  sample.
\<close>

theorem check_request_history_hint_witness:
  "building ready_state \<noteq> None
   \<and> userLocation ready_state = Some (scenario_sample 4)
   \<and> snd (checkLocation ready_state ready_state)
       = Some (check_request ready_state (scenario_sample 4))
   \<and> property ''user_location'' (body (check_request ready_state (scenario_sample 4)))
       = Some (JObject [(''lat'', JNumber 48), (''lng'', JNumber 11), (''accuracy'', JNumber 5),
                        (''timestamp'', JNumber 4)])
   \<and> property ''location_history'' (body (check_request ready_state (scenario_sample 4)))
       = Some (JArray
           [JObject [(''lat'', JNumber 48), (''lng'', JNumber 11), (''accuracy'', JNumber 5),
                     (''timestamp'', JNumber 2)],
            JObject [(''lat'', JNumber 48), (''lng'', JNumber 11), (''accuracy'', JNumber 5),
                     (''timestamp'', JNumber 3)],
            JObject [(''lat'', JNumber 48), (''lng'', JNumber 11), (''accuracy'', JNumber 5),
                     (''timestamp'', JNumber 4)]])"
proof -
  have b: "building ready_state \<noteq> None"
    and u: "userLocation ready_state = Some (scenario_sample 4)"
    and h: "locationHistory ready_state =
              [scenario_sample 1] @ [scenario_sample 2, scenario_sample 3, scenario_sample 4]"
    by (simp_all add: ready_state_def initial_state_def)
  from check_request_history_hint [OF b u, of ready_state]
  have "snd (checkLocation ready_state ready_state)
       = Some (check_request ready_state (scenario_sample 4))"
    and "property ''user_location'' (body (check_request ready_state (scenario_sample 4)))
        = Some (JObject [(''lat'', JNumber (lat (scenario_sample 4))),
                         (''lng'', JNumber (lng (scenario_sample 4))),
                         (''accuracy'', JNumber (accuracy (scenario_sample 4))),
                         (''timestamp'', JNumber (of_int (timestamp (scenario_sample 4))))])"
    and "\<forall>older a b c. locationHistory ready_state = older @ [a, b, c] \<longrightarrow>
         property ''location_history'' (body (check_request ready_state (scenario_sample 4)))
           = Some (JArray (map (\<lambda>x. JObject [(''lat'', JNumber (lat x)), (''lng'', JNumber (lng x)),
                                               (''accuracy'', JNumber (accuracy x)),
                                               (''timestamp'', JNumber (of_int (timestamp x)))])
                             [a, b, c]))"
    by blast+
  with h b u show ?thesis by (simp add: scenario_sample_def)
qed

text \<open>
  A building name of one no-break space is blank to \<open>trim\<close>.
\<close>

lemma trim_no_break_space: "trim [CHR 0xC2, CHR 0xA0] = [] \<and> trim '' Tower '' = ''Tower''"
  by code_simp

subsection \<open>The confidence colour\<close>

lemma starts_with_iff: "starts_with x sub \<longleftrightarrow> (\<exists>v. x = sub @ v)"
  by (induction x sub rule: starts_with.induct) auto

lemma includes_js_iff: "includes_js x sub \<longleftrightarrow> (\<exists>u v. x = u @ sub @ v)"
proof (induction x)
  case Nil
  then show ?case by auto
next
  case (Cons d x)
  show ?case
  proof
    assume "includes_js (d # x) sub"
    then consider "starts_with (d # x) sub" | "includes_js x sub" by auto
    then show "\<exists>u v. d # x = u @ sub @ v"
    proof cases
      case 1
      then obtain v where "d # x = sub @ v" by (auto simp: starts_with_iff)
      then have "d # x = [] @ sub @ v" by simp
      then show ?thesis by blast
    next
      case 2
      then obtain u v where "x = u @ sub @ v" using Cons.IH by auto
      then have "d # x = (d # u) @ sub @ v" by simp
      then show ?thesis by blast
    qed
  next
    assume "\<exists>u v. d # x = u @ sub @ v"
    then obtain u v where uv: "d # x = u @ sub @ v" by auto
    show "includes_js (d # x) sub"
    proof (cases u)
      case Nil
      with uv have "starts_with (d # x) sub" by (auto simp: starts_with_iff)
      then show ?thesis by simp
    next
      case (Cons d' u')
      with uv have "x = u' @ sub @ v" by simp
      then have "includes_js x sub" using Cons.IH by auto
      then show ?thesis by simp
    qed
  qed
qed

text \<open>
  C3. \<open>getConfidenceColor\<close> is the colour of the tier the specification's
  \<open>severityTier\<close> gives: containment of "Definitely inside", then "Likely inside",
  then "uncertain", then "Likely outside", the first match deciding, and tier E for
  everything else, the empty and the absent string included. The five colours are
  distinct, so the colour tells the tier.
\<close>

theorem getConfidenceColor_tiers:
  "getConfidenceColor confidence = tier_colour (severityTier_spec confidence)
   \<and> inj tier_colour
   \<and> getConfidenceColor None = tier_colour Tier_E
   \<and> getConfidenceColor (Some '''') = tier_colour Tier_E
   \<and> getConfidenceColor (Some ''Definitely inside boundary'') = tier_colour Tier_A
   \<and> getConfidenceColor (Some ''Likely outside range'') = tier_colour Tier_D"
proof -
  have 1: "getConfidenceColor confidence = tier_colour (severityTier_spec confidence)"
  proof (cases confidence)
    case None
    then show ?thesis by (simp add: getConfidenceColor_def severityTier_spec_def)
  next
    case (Some x)
    show ?thesis
    proof (cases "x = []")
      case True
      with Some show ?thesis
        by (simp add: getConfidenceColor_def severityTier_spec_def contains_def)
    next
      case False
      with Some show ?thesis
        by (simp add: getConfidenceColor_def severityTier_spec_def contains_def includes_js_iff)
    qed
  qed
  have 2: "inj tier_colour"
  proof (rule injI)
    fix a b assume "tier_colour a = tier_colour b"
    then show "a = b" by (cases a; cases b) simp_all
  qed
  have 3: "getConfidenceColor None = tier_colour Tier_E"
    by (simp add: getConfidenceColor_def)
  have 4: "getConfidenceColor (Some '''') = tier_colour Tier_E"
    by (simp add: getConfidenceColor_def)
  have 5: "getConfidenceColor (Some ''Definitely inside boundary'') = tier_colour Tier_A"
    by (simp add: getConfidenceColor_def)
  have 6: "getConfidenceColor (Some ''Likely outside range'') = tier_colour Tier_D"
    by (simp add: getConfidenceColor_def)
  from 1 2 3 4 5 6 show ?thesis by blast
qed

subsection \<open>The precondition of the verification\<close>

text \<open>
  C4. When the building or the current sample is null, \<open>checkLocation\<close> sets the error
  slot to "Building and user location are required", changes nothing else and sends no
  request.
\<close>

theorem checkLocation_precondition:
  assumes "building r = None \<or> userLocation r = None"
  shows "checkLocation r s =
           (s\<lparr>error := Some ''Building and user location are required''\<rparr>, None)"
  using assms by (auto simp: checkLocation_def)

text \<open>
  In the initial state there is neither a building nor a sample.
\<close>

theorem checkLocation_precondition_witness:
  "(building initial_state = None \<or> userLocation initial_state = None)
   \<and> checkLocation initial_state initial_state =
       (initial_state\<lparr>error := Some ''Building and user location are required''\<rparr>, None)"
proof -
  have h: "building initial_state = None \<or> userLocation initial_state = None"
    by (simp add: initial_state_def)
  show ?thesis using h checkLocation_precondition [OF h, of initial_state] by simp
qed

subsection \<open>A failing verification\<close>




subsection \<open>A failing building lookup\<close>




subsection \<open>A provider error while monitoring\<close>

text \<open>
  The error callback of the watch calls the \<open>stopLocationMonitoring\<close> of the render
  in which \<open>startLocationMonitoring\<close> ran. That render passed the test
  \<open>watchId !== null\<close> of \<open>startLocationMonitoring\<close>, so its \<open>watchId\<close> is null, and
  its \<open>stopLocationMonitoring\<close> neither calls \<open>clearWatch\<close> nor sets \<open>watchId\<close>.
\<close>

lemma watch_error_idle_render:
  "watchId r = None \<Longrightarrow>
   watch_error r msg (s, e) =
     (s\<lparr>error := Some (''Error monitoring location: '' @ msg), isMonitoring := False\<rparr>, e)"
  by (simp add: watch_error_def stopLocationMonitoring_def)

lemma start_registers_idle_render:
  "(i, r') \<in> set (watches (snd (startLocationMonitoring r (s, e)))) \<Longrightarrow>
   (i, r') \<in> set (watches e) \<or> watchId r' = None"
  by (auto simp: startLocationMonitoring_def split: if_splits)

text \<open>
  C7. The claim is that a provider error surfaces the error and then does what a stop
  does: the watch is released and monitoring ends, the current sample and the history
  staying. In the scenario the error is surfaced, \<open>isMonitoring\<close> becomes false and
  the sample and the history stay, but the watch is not released: \<open>watchId\<close> still
  holds its identifier and the browser still runs the watch, so that a later click on
  the start button does nothing. A click on the stop button in the same situation does
  release the watch.
\<close>

theorem provider_error_leaves_watch_running:
  "watchId (fst monitoring_sampled) = Some 1
   \<and> isMonitoring (fst monitoring_sampled)
   \<and> watch_running 1 (snd monitoring_sampled)
   \<and> error (fst monitoring_failed) = Some ''Error monitoring location: Timeout expired''
   \<and> isMonitoring (fst monitoring_failed) = False
   \<and> userLocation (fst monitoring_failed) = Some (newLocation scenario_position 1000)
   \<and> locationHistory (fst monitoring_failed) = [newLocation scenario_position 1000]
   \<and> watchId (fst monitoring_failed) = Some 1
   \<and> watch_running 1 (snd monitoring_failed)
   \<and> click_startLocationMonitoring monitoring_failed = monitoring_failed
   \<and> watchId (fst (click_stopLocationMonitoring monitoring_sampled)) = None
   \<and> watch_running 1 (snd (click_stopLocationMonitoring monitoring_sampled)) = False"
proof -
  have started: "monitoring_started =
      (initial_state\<lparr>isMonitoring := True, watchId := Some 1\<rparr>,
       initial_env\<lparr>watches := [(1, initial_state)], next_watch := 2\<rparr>)"
    by (simp add: monitoring_started_def click_startLocationMonitoring_def
        startLocationMonitoring_def initial_state_def initial_env_def)
  have sampled: "monitoring_sampled =
      (initial_state\<lparr>isMonitoring := True, watchId := Some 1,
         userLocation := Some (newLocation scenario_position 1000),
         locationHistory := [newLocation scenario_position 1000]\<rparr>,
       initial_env\<lparr>watches := [(1, initial_state)], next_watch := 2\<rparr>)"
    by (simp add: monitoring_sampled_def started watch_reports_position_def watch_success_def
        add_to_history_def slice_from_def MAX_HISTORY_POINTS_def initial_state_def)
  have failed: "monitoring_failed =
      (initial_state\<lparr>isMonitoring := False, watchId := Some 1,
         userLocation := Some (newLocation scenario_position 1000),
         locationHistory := [newLocation scenario_position 1000],
         error := Some ''Error monitoring location: Timeout expired''\<rparr>,
       initial_env\<lparr>watches := [(1, initial_state)], next_watch := 2\<rparr>)"
    by (simp add: monitoring_failed_def sampled watch_reports_error_def watch_error_def
        stopLocationMonitoring_def initial_state_def)
  have again: "click_startLocationMonitoring monitoring_failed = monitoring_failed"
    by (simp add: failed click_startLocationMonitoring_def startLocationMonitoring_def)
  have stop: "click_stopLocationMonitoring monitoring_sampled =
      (initial_state\<lparr>isMonitoring := False, watchId := None,
         userLocation := Some (newLocation scenario_position 1000),
         locationHistory := [newLocation scenario_position 1000]\<rparr>,
       initial_env\<lparr>watches := [], next_watch := 2\<rparr>)"
    by (simp add: sampled click_stopLocationMonitoring_def stopLocationMonitoring_def
        clearWatch_def initial_state_def initial_env_def)
  have stopped: "watchId (fst (click_stopLocationMonitoring monitoring_sampled)) = None
      \<and> watch_running 1 (snd (click_stopLocationMonitoring monitoring_sampled)) = False"
    unfolding stop by (simp add: watch_running_def)
  have before: "watchId (fst monitoring_sampled) = Some 1
      \<and> isMonitoring (fst monitoring_sampled)
      \<and> watch_running 1 (snd monitoring_sampled)"
    unfolding sampled by (simp add: watch_running_def)
  have after: "error (fst monitoring_failed) = Some ''Error monitoring location: Timeout expired''
      \<and> isMonitoring (fst monitoring_failed) = False
      \<and> userLocation (fst monitoring_failed) = Some (newLocation scenario_position 1000)
      \<and> locationHistory (fst monitoring_failed) = [newLocation scenario_position 1000]
      \<and> watchId (fst monitoring_failed) = Some 1
      \<and> watch_running 1 (snd monitoring_failed)"
    unfolding failed by (simp add: watch_running_def)
  from before after again stopped show ?thesis by blast
qed

subsection \<open>The progress of a one-shot acquisition\<close>

lemma map_of_filter_fst: "map_of (filter (\<lambda>p. fst p \<noteq> i) xs) i = None"
  by (induction xs) auto

lemma not_running_after_clear: "\<not> interval_running i (clearInterval (Some i) e)"
  by (simp add: interval_running_def clearInterval_def map_of_filter_fst)

text \<open>The state after \<open>n\<close> firings of the interval.\<close>

lemma ticks_state:
  assumes "geolocation e"
  shows "(interval_fires (next_interval e) ^^ n) (getUserLocation (s, e)) =
     (s\<lparr>error := None, loading := True, locatingProgress := min (10 * int n) 100\<rparr>,
      if n \<ge> 11
      then clearInterval (Some (next_interval e))
             (e\<lparr>locatingTimer := Some (next_interval e),
               intervals := (next_interval e, 200) # intervals e,
               next_interval := Suc (next_interval e)\<rparr>)
      else e\<lparr>locatingTimer := Some (next_interval e),
             intervals := (next_interval e, 200) # intervals e,
             next_interval := Suc (next_interval e)\<rparr>)"
proof (induction n)
  case 0
  show ?case using assms by (simp add: getUserLocation_def startLocatingProgress_def)
next
  case (Suc n)
  let ?e' = "e\<lparr>locatingTimer := Some (next_interval e),
               intervals := (next_interval e, 200) # intervals e,
               next_interval := Suc (next_interval e)\<rparr>"
  let ?f = "interval_fires (next_interval e)"
  let ?sn = "s\<lparr>error := None, loading := True, locatingProgress := min (10 * int n) 100\<rparr>"
  have step: "(?f ^^ Suc n) (getUserLocation (s, e)) =
      ?f (?sn, if n \<ge> 11 then clearInterval (Some (next_interval e)) ?e' else ?e')"
    by (simp only: funpow.simps o_apply Suc.IH)
  consider "n < 10" | "n = 10" | "n \<ge> 11" by linarith
  then show ?case
  proof cases
    case 1
    then show ?thesis
      unfolding step
      by (simp add: interval_fires_def interval_running_def locating_tick_def)
  next
    case 2
    then show ?thesis
      unfolding step
      by (simp add: interval_fires_def interval_running_def locating_tick_def)
  next
    case 3
    then show ?thesis
      unfolding step
      using not_running_after_clear [of "next_interval e" ?e']
      by (simp add: interval_fires_def)
  qed
qed

text \<open>
  C8. \<open>getUserLocation\<close> sets the progress to 0 and starts an interval of 200 ms.
  After \<open>n\<close> firings of that interval, with the acquisition still pending, the
  progress is \<open>min (10 n) 100\<close>: it grows by 10 with each firing up to 100 and stays
  there, and the interval stops itself at the eleventh firing. When the acquisition
  completes, with a position or with an error, the progress is 100 and the interval
  is stopped.
\<close>

theorem locating_progress:
  assumes "geolocation e"
  shows "locatingProgress (fst (getUserLocation (s, e))) = 0
    \<and> map_of (intervals (snd (getUserLocation (s, e)))) (next_interval e) = Some 200
    \<and> locatingProgress (fst ((interval_fires (next_interval e) ^^ n) (getUserLocation (s, e))))
        = min (10 * int n) 100
    \<and> interval_running (next_interval e)
          (snd ((interval_fires (next_interval e) ^^ n) (getUserLocation (s, e)))) = (n < 11)
    \<and> locatingProgress (fst (getUserLocation_success p now
          ((interval_fires (next_interval e) ^^ n) (getUserLocation (s, e))))) = 100
    \<and> locatingProgress (fst (getUserLocation_error msg
          ((interval_fires (next_interval e) ^^ n) (getUserLocation (s, e))))) = 100
    \<and> interval_running (next_interval e) (snd (getUserLocation_success p now
          ((interval_fires (next_interval e) ^^ n) (getUserLocation (s, e))))) = False
    \<and> interval_running (next_interval e) (snd (getUserLocation_error msg
          ((interval_fires (next_interval e) ^^ n) (getUserLocation (s, e))))) = False"
proof -
  let ?i = "next_interval e"
  let ?e' = "e\<lparr>locatingTimer := Some ?i, intervals := (?i, 200) # intervals e,
               next_interval := Suc ?i\<rparr>"
  note st = ticks_state [OF assms, of n s]
  have a: "locatingProgress (fst (getUserLocation (s, e))) = 0"
    using assms by (simp add: getUserLocation_def startLocatingProgress_def)
  have b: "map_of (intervals (snd (getUserLocation (s, e)))) ?i = Some 200"
    using assms by (simp add: getUserLocation_def startLocatingProgress_def)
  have c: "locatingProgress (fst ((interval_fires ?i ^^ n) (getUserLocation (s, e))))
        = min (10 * int n) 100"
    by (simp add: st)
  have d: "interval_running ?i (snd ((interval_fires ?i ^^ n) (getUserLocation (s, e)))) = (n < 11)"
    using not_running_after_clear [of ?i ?e']
    by (simp add: st) (simp add: interval_running_def)
  have timer: "locatingTimer (snd ((interval_fires ?i ^^ n) (getUserLocation (s, e)))) = Some ?i"
    by (simp add: st clearInterval_def)
  have stop: "\<And>s' e'. locatingTimer e' = Some ?i \<Longrightarrow>
      locatingProgress (fst (stopLocatingProgress (s', e'))) = 100
      \<and> \<not> interval_running ?i (snd (stopLocatingProgress (s', e')))"
    using not_running_after_clear by (simp add: stopLocatingProgress_def)
  obtain sn en where w: "(interval_fires ?i ^^ n) (getUserLocation (s, e)) = (sn, en)"
    by (cases "(interval_fires ?i ^^ n) (getUserLocation (s, e))")
  with timer have t: "locatingTimer en = Some ?i" by simp
  have e1: "locatingProgress (fst (getUserLocation_success p now (sn, en))) = 100"
    and e2: "\<not> interval_running ?i (snd (getUserLocation_success p now (sn, en)))"
    using stop [OF t] by (simp_all add: getUserLocation_success_def)
  have f1: "locatingProgress (fst (getUserLocation_error msg (sn, en))) = 100"
    and f2: "\<not> interval_running ?i (snd (getUserLocation_error msg (sn, en)))"
    using stop [OF t] by (simp_all add: getUserLocation_error_def)
  from a b c d e1 e2 f1 f2 show ?thesis
    unfolding w by simp
qed

text \<open>
  Three firings, then either completion.
\<close>

theorem locating_progress_witness:
  "geolocation initial_env
   \<and> locatingProgress (fst (getUserLocation (initial_state, initial_env))) = 0
   \<and> locatingProgress
        (fst ((interval_fires 1 ^^ 3) (getUserLocation (initial_state, initial_env)))) = 30
   \<and> interval_running 1
        (snd ((interval_fires 1 ^^ 3) (getUserLocation (initial_state, initial_env))))
   \<and> locatingProgress (fst (getUserLocation_success scenario_position 1000
        ((interval_fires 1 ^^ 3) (getUserLocation (initial_state, initial_env))))) = 100
   \<and> locatingProgress (fst (getUserLocation_error ''Timeout expired''
        ((interval_fires 1 ^^ 3) (getUserLocation (initial_state, initial_env))))) = 100"
proof -
  have g: "geolocation initial_env" and i: "next_interval initial_env = 1"
    by (simp_all add: initial_env_def)
  from locating_progress [OF g, of initial_state 3 scenario_position 1000 "''Timeout expired''"]
  show ?thesis unfolding i using g by simp
qed

subsection \<open>The first version and the enhanced version\<close>

lemma slice_from_three: "slice_from (- 3) h = drop (length h - 3) h"
  using slice_from_neg [of 3 h] by simp

lemma view_searchBuilding:
  "snd (searchBuilding r s) = snd (searchBuilding_simple (simple_view r) (simple_view s))
   \<and> simple_view (fst (searchBuilding r s))
       = fst (searchBuilding_simple (simple_view r) (simple_view s))"
  by (simp add: searchBuilding_def searchBuilding_simple_def simple_view_def)

lemma view_searchBuilding_finish:
  "simple_view (searchBuilding_finish eng out s)
     = searchBuilding_simple_finish eng out (simple_view s)"
  by (cases "await_response eng ''Failed to find building'' out")
     (simp_all add: searchBuilding_finish_def searchBuilding_simple_finish_def simple_view_def)

lemma view_getUserLocation:
  "simple_view (fst (getUserLocation (s, e))) = getUserLocation_simple (geolocation e) (simple_view s)
   \<and> simple_view (fst (getUserLocation_success p now (s, e)))
       = getUserLocation_simple_success p (simple_view s)
   \<and> simple_view (fst (getUserLocation_error msg (s, e)))
       = getUserLocation_simple_error msg (simple_view s)"
  by (simp add: getUserLocation_def getUserLocation_simple_def startLocatingProgress_def
      getUserLocation_success_def getUserLocation_simple_success_def stopLocatingProgress_def
      getUserLocation_error_def getUserLocation_simple_error_def simple_view_def
      simple_sample_def newLocation_def)

lemma view_checkLocation:
  "simple_view (fst (checkLocation r s))
     = fst (checkLocation_simple (simple_view r) (simple_view s))
   \<and> (snd (checkLocation r s) = None)
       = (snd (checkLocation_simple (simple_view r) (simple_view s)) = None)"
  by (simp add: checkLocation_def checkLocation_simple_def simple_view_def)

lemma view_checkLocation_finish:
  "simple_view (checkLocation_finish eng out s) = checkLocation_simple_finish eng out (simple_view s)"
  by (cases "await_response eng ''Failed to check location'' out")
     (simp_all add: checkLocation_finish_def checkLocation_simple_finish_def simple_view_def)

lemma check_requests_compared:
  "url (check_request r u) = url (check_request_simple (simple_view r) (simple_sample u))
   \<and> http_method (check_request r u)
       = http_method (check_request_simple (simple_view r) (simple_sample u))
   \<and> property ''building_name'' (body (check_request r u))
       = property ''building_name'' (body (check_request_simple (simple_view r) (simple_sample u)))
   \<and> property ''city'' (body (check_request r u))
       = property ''city'' (body (check_request_simple (simple_view r) (simple_sample u)))
   \<and> property ''country'' (body (check_request r u))
       = property ''country'' (body (check_request_simple (simple_view r) (simple_sample u)))
   \<and> property ''user_lat'' (body (check_request_simple (simple_view r) (simple_sample u)))
       = Some (JNumber (lat u))
   \<and> property ''user_lng'' (body (check_request_simple (simple_view r) (simple_sample u)))
       = Some (JNumber (lng u))
   \<and> property ''user_location'' (body (check_request_simple (simple_view r) (simple_sample u)))
       = None
   \<and> property ''location_history'' (body (check_request_simple (simple_view r) (simple_sample u)))
       = None
   \<and> property ''user_lat'' (body (check_request r u)) = None
   \<and> property ''user_lng'' (body (check_request r u)) = None
   \<and> property ''user_location'' (body (check_request r u))
       = Some (JObject [(''lat'', JNumber (lat u)), (''lng'', JNumber (lng u)),
                        (''accuracy'', JNumber (accuracy u)),
                        (''timestamp'', JNumber (of_int (timestamp u)))])
   \<and> property ''location_history'' (body (check_request r u))
       = (if length (locationHistory r) \<ge> 3
          then Some (JArray (map (\<lambda>x. JObject [(''lat'', JNumber (lat x)), (''lng'', JNumber (lng x)),
                                                 (''accuracy'', JNumber (accuracy x)),
                                                 (''timestamp'', JNumber (of_int (timestamp x)))])
                               (drop (length (locationHistory r) - 3) (locationHistory r))))
          else None)"
  by (simp add: check_request_def check_request_simple_def simple_view_def
       simple_sample_def or_undefined_def sample_json_def history_hint_def slice_from_three)

text \<open>
  C9, as amended. On the nine state variables both versions have (the sample taken
  without its timestamp), the enhanced building lookup, one-shot acquisition and
  verification change the state as the first version's do, in every state and for every
  outcome, and they send a request in the same cases. The building lookup sends the same
  request. The requests of the other two differ. The acquisition asks with a timeout of
  15000 ms where the first version asks with 10000 ms, the other options being equal. The
  verification request goes to the same address with the same \<open>building_name\<close>,
  \<open>city\<close> and \<open>country\<close>; the first version carries the position as the numbers
  \<open>user_lat\<close> and \<open>user_lng\<close> and has no \<open>user_location\<close> and no
  \<open>location_history\<close>; the enhanced version has no \<open>user_lat\<close> and no \<open>user_lng\<close>
  and carries the position as the object \<open>user_location\<close> with latitude, longitude,
  accuracy and timestamp, and the last three samples as \<open>location_history\<close> when the
  history has three or more.
\<close>

theorem enhanced_agrees_with_simple_on_shared_state:
  "snd (searchBuilding r s) = snd (searchBuilding_simple (simple_view r) (simple_view s))
   \<and> simple_view (fst (searchBuilding r s))
       = fst (searchBuilding_simple (simple_view r) (simple_view s))
   \<and> simple_view (searchBuilding_finish eng b_out s)
       = searchBuilding_simple_finish eng b_out (simple_view s)
   \<and> simple_view (fst (getUserLocation (s, e)))
       = getUserLocation_simple (geolocation e) (simple_view s)
   \<and> simple_view (fst (getUserLocation_success p now (s, e)))
       = getUserLocation_simple_success p (simple_view s)
   \<and> simple_view (fst (getUserLocation_error msg (s, e)))
       = getUserLocation_simple_error msg (simple_view s)
   \<and> getUserLocation_options = getUserLocation_simple_options\<lparr>timeout := 15000\<rparr>
   \<and> timeout getUserLocation_simple_options = 10000
   \<and> simple_view (fst (checkLocation r s))
       = fst (checkLocation_simple (simple_view r) (simple_view s))
   \<and> (snd (checkLocation r s) = None)
       = (snd (checkLocation_simple (simple_view r) (simple_view s)) = None)
   \<and> (snd (checkLocation r s) = None) = (building r = None \<or> userLocation r = None)
   \<and> simple_view (checkLocation_finish eng c_out s)
       = checkLocation_simple_finish eng c_out (simple_view s)
   \<and> (\<forall>q q'. snd (checkLocation r s) = Some q
          \<and> snd (checkLocation_simple (simple_view r) (simple_view s)) = Some q' \<longrightarrow>
        (\<exists>u. userLocation r = Some u
          \<and> url q = url q' \<and> http_method q = http_method q'
          \<and> property ''building_name'' (body q) = property ''building_name'' (body q')
          \<and> property ''city'' (body q) = property ''city'' (body q')
          \<and> property ''country'' (body q) = property ''country'' (body q')
          \<and> property ''user_lat'' (body q') = Some (JNumber (lat u))
          \<and> property ''user_lng'' (body q') = Some (JNumber (lng u))
          \<and> property ''user_location'' (body q') = None
          \<and> property ''location_history'' (body q') = None
          \<and> property ''user_lat'' (body q) = None
          \<and> property ''user_lng'' (body q) = None
          \<and> property ''user_location'' (body q)
              = Some (JObject [(''lat'', JNumber (lat u)), (''lng'', JNumber (lng u)),
                               (''accuracy'', JNumber (accuracy u)),
                               (''timestamp'', JNumber (of_int (timestamp u)))])
          \<and> property ''location_history'' (body q)
              = (if length (locationHistory r) \<ge> 3
                 then Some (JArray (map (\<lambda>x. JObject [(''lat'', JNumber (lat x)),
                                                        (''lng'', JNumber (lng x)),
                                                        (''accuracy'', JNumber (accuracy x)),
                                                        (''timestamp'', JNumber (of_int (timestamp x)))])
                                      (drop (length (locationHistory r) - 3) (locationHistory r))))
                 else None)))"
proof -
  have o: "getUserLocation_options = getUserLocation_simple_options\<lparr>timeout := 15000\<rparr>
      \<and> timeout getUserLocation_simple_options = 10000"
    by (simp add: getUserLocation_options_def getUserLocation_simple_options_def)
  have g: "(snd (checkLocation r s) = None) = (building r = None \<or> userLocation r = None)"
    by (simp add: checkLocation_def)
  have req: "\<forall>q q'. snd (checkLocation r s) = Some q
          \<and> snd (checkLocation_simple (simple_view r) (simple_view s)) = Some q' \<longrightarrow>
        (\<exists>u. userLocation r = Some u
          \<and> url q = url q' \<and> http_method q = http_method q'
          \<and> property ''building_name'' (body q) = property ''building_name'' (body q')
          \<and> property ''city'' (body q) = property ''city'' (body q')
          \<and> property ''country'' (body q) = property ''country'' (body q')
          \<and> property ''user_lat'' (body q') = Some (JNumber (lat u))
          \<and> property ''user_lng'' (body q') = Some (JNumber (lng u))
          \<and> property ''user_location'' (body q') = None
          \<and> property ''location_history'' (body q') = None
          \<and> property ''user_lat'' (body q) = None
          \<and> property ''user_lng'' (body q) = None
          \<and> property ''user_location'' (body q)
              = Some (JObject [(''lat'', JNumber (lat u)), (''lng'', JNumber (lng u)),
                               (''accuracy'', JNumber (accuracy u)),
                               (''timestamp'', JNumber (of_int (timestamp u)))])
          \<and> property ''location_history'' (body q)
              = (if length (locationHistory r) \<ge> 3
                 then Some (JArray (map (\<lambda>x. JObject [(''lat'', JNumber (lat x)),
                                                        (''lng'', JNumber (lng x)),
                                                        (''accuracy'', JNumber (accuracy x)),
                                                        (''timestamp'', JNumber (of_int (timestamp x)))])
                                      (drop (length (locationHistory r) - 3) (locationHistory r))))
                 else None))"
  proof (intro allI impI)
    fix q q'
    assume a: "snd (checkLocation r s) = Some q
          \<and> snd (checkLocation_simple (simple_view r) (simple_view s)) = Some q'"
    then have "building r \<noteq> None" and "userLocation r \<noteq> None"
      by (auto simp: checkLocation_def split: if_splits)
    then obtain u where u: "userLocation r = Some u" by auto
    with a \<open>building r \<noteq> None\<close> have q: "q = check_request r u"
      by (simp add: checkLocation_def)
    from a u \<open>building r \<noteq> None\<close>
    have q': "q' = check_request_simple (simple_view r) (simple_sample u)"
      by (simp add: checkLocation_simple_def simple_view_def)
    show "\<exists>u. userLocation r = Some u
          \<and> url q = url q' \<and> http_method q = http_method q'
          \<and> property ''building_name'' (body q) = property ''building_name'' (body q')
          \<and> property ''city'' (body q) = property ''city'' (body q')
          \<and> property ''country'' (body q) = property ''country'' (body q')
          \<and> property ''user_lat'' (body q') = Some (JNumber (lat u))
          \<and> property ''user_lng'' (body q') = Some (JNumber (lng u))
          \<and> property ''user_location'' (body q') = None
          \<and> property ''location_history'' (body q') = None
          \<and> property ''user_lat'' (body q) = None
          \<and> property ''user_lng'' (body q) = None
          \<and> property ''user_location'' (body q)
              = Some (JObject [(''lat'', JNumber (lat u)), (''lng'', JNumber (lng u)),
                               (''accuracy'', JNumber (accuracy u)),
                               (''timestamp'', JNumber (of_int (timestamp u)))])
          \<and> property ''location_history'' (body q)
              = (if length (locationHistory r) \<ge> 3
                 then Some (JArray (map (\<lambda>x. JObject [(''lat'', JNumber (lat x)),
                                                        (''lng'', JNumber (lng x)),
                                                        (''accuracy'', JNumber (accuracy x)),
                                                        (''timestamp'', JNumber (of_int (timestamp x)))])
                                      (drop (length (locationHistory r) - 3) (locationHistory r))))
                 else None)"
      unfolding q q'
      by (rule exI [of _ u]) (use u check_requests_compared [of r u] in \<open>simp only: simp_thms\<close>)
  qed
  show ?thesis
    by (intro conjI)
       (use o g req view_searchBuilding [of r s] view_searchBuilding_finish [of eng b_out s]
          view_getUserLocation [of s e p now msg] view_checkLocation [of r s]
          view_checkLocation_finish [of eng c_out s] in \<open>simp_all only: simp_thms\<close>)
qed

text \<open>
  The state with a building, a sample and four samples of history, where both versions
  send a request; and a render without building and sample, where neither does.
\<close>

theorem enhanced_agrees_with_simple_on_shared_state_witness:
  "snd (checkLocation ready_state ready_state)
       = Some (check_request ready_state (scenario_sample 4))
   \<and> snd (checkLocation_simple (simple_view ready_state) (simple_view ready_state))
       = Some (check_request_simple (simple_view ready_state) (simple_sample (scenario_sample 4)))
   \<and> property ''user_lat''
        (body (check_request_simple (simple_view ready_state) (simple_sample (scenario_sample 4))))
       = Some (JNumber 48)
   \<and> property ''user_lat'' (body (check_request ready_state (scenario_sample 4))) = None
   \<and> property ''user_location'' (body (check_request ready_state (scenario_sample 4)))
       = Some (JObject [(''lat'', JNumber 48), (''lng'', JNumber 11), (''accuracy'', JNumber 5),
                        (''timestamp'', JNumber 4)])
   \<and> property ''location_history'' (body (check_request ready_state (scenario_sample 4)))
       = Some (JArray
           [JObject [(''lat'', JNumber 48), (''lng'', JNumber 11), (''accuracy'', JNumber 5),
                     (''timestamp'', JNumber 2)],
            JObject [(''lat'', JNumber 48), (''lng'', JNumber 11), (''accuracy'', JNumber 5),
                     (''timestamp'', JNumber 3)],
            JObject [(''lat'', JNumber 48), (''lng'', JNumber 11), (''accuracy'', JNumber 5),
                     (''timestamp'', JNumber 4)]])
   \<and> simple_view (fst (checkLocation initial_state ready_state))
       = fst (checkLocation_simple (simple_view initial_state) (simple_view ready_state))
   \<and> snd (checkLocation initial_state ready_state) = None"
proof -
  let ?q = "check_request ready_state (scenario_sample 4)"
  let ?q' = "check_request_simple (simple_view ready_state) (simple_sample (scenario_sample 4))"
  have b: "building ready_state \<noteq> None"
    and u: "userLocation ready_state = Some (scenario_sample 4)"
    and h: "locationHistory ready_state =
              [scenario_sample 1, scenario_sample 2, scenario_sample 3, scenario_sample 4]"
    by (simp_all add: ready_state_def initial_state_def)
  have q: "snd (checkLocation ready_state ready_state) = Some ?q"
    using b u by (simp add: checkLocation_def)
  have q': "snd (checkLocation_simple (simple_view ready_state) (simple_view ready_state)) = Some ?q'"
    using b u by (simp add: checkLocation_simple_def simple_view_def)
  note all = enhanced_agrees_with_simple_on_shared_state [of ready_state ready_state
      scenario_engine "Ok_data scenario_building" initial_env scenario_position 0 "[]"
      "Ok_data scenario_result"]
  note idle = enhanced_agrees_with_simple_on_shared_state [of initial_state ready_state
      scenario_engine "Ok_data scenario_building" initial_env scenario_position 0 "[]"
      "Ok_data scenario_result"]
  from idle have i1: "simple_view (fst (checkLocation initial_state ready_state))
       = fst (checkLocation_simple (simple_view initial_state) (simple_view ready_state))"
    by (elim conjE) assumption
  from idle have "(snd (checkLocation initial_state ready_state) = None)
      = (building initial_state = None \<or> userLocation initial_state = None)"
    by (elim conjE) assumption
  then have i2: "snd (checkLocation initial_state ready_state) = None"
    by (simp add: initial_state_def)
  from all have "\<forall>q q'. snd (checkLocation ready_state ready_state) = Some q
          \<and> snd (checkLocation_simple (simple_view ready_state) (simple_view ready_state)) = Some q' \<longrightarrow>
        (\<exists>u. userLocation ready_state = Some u
          \<and> url q = url q' \<and> http_method q = http_method q'
          \<and> property ''building_name'' (body q) = property ''building_name'' (body q')
          \<and> property ''city'' (body q) = property ''city'' (body q')
          \<and> property ''country'' (body q) = property ''country'' (body q')
          \<and> property ''user_lat'' (body q') = Some (JNumber (lat u))
          \<and> property ''user_lng'' (body q') = Some (JNumber (lng u))
          \<and> property ''user_location'' (body q') = None
          \<and> property ''location_history'' (body q') = None
          \<and> property ''user_lat'' (body q) = None
          \<and> property ''user_lng'' (body q) = None
          \<and> property ''user_location'' (body q)
              = Some (JObject [(''lat'', JNumber (lat u)), (''lng'', JNumber (lng u)),
                               (''accuracy'', JNumber (accuracy u)),
                               (''timestamp'', JNumber (of_int (timestamp u)))])
          \<and> property ''location_history'' (body q)
              = (if length (locationHistory ready_state) \<ge> 3
                 then Some (JArray (map (\<lambda>x. JObject [(''lat'', JNumber (lat x)),
                                                        (''lng'', JNumber (lng x)),
                                                        (''accuracy'', JNumber (accuracy x)),
                                                        (''timestamp'', JNumber (of_int (timestamp x)))])
                                      (drop (length (locationHistory ready_state) - 3)
                                         (locationHistory ready_state))))
                 else None))"
    by (elim conjE) assumption
  from this [rule_format, of ?q ?q'] q q' u
  have "property ''user_lat'' (body ?q') = Some (JNumber (lat (scenario_sample 4)))
      \<and> property ''user_lat'' (body ?q) = None
      \<and> property ''user_location'' (body ?q)
              = Some (JObject [(''lat'', JNumber (lat (scenario_sample 4))),
                               (''lng'', JNumber (lng (scenario_sample 4))),
                               (''accuracy'', JNumber (accuracy (scenario_sample 4))),
                               (''timestamp'', JNumber (of_int (timestamp (scenario_sample 4))))])
      \<and> property ''location_history'' (body ?q)
              = (if length (locationHistory ready_state) \<ge> 3
                 then Some (JArray (map (\<lambda>x. JObject [(''lat'', JNumber (lat x)),
                                                        (''lng'', JNumber (lng x)),
                                                        (''accuracy'', JNumber (accuracy x)),
                                                        (''timestamp'', JNumber (of_int (timestamp x)))])
                                      (drop (length (locationHistory ready_state) - 3)
                                         (locationHistory ready_state))))
                 else None)"
    by simp
  then have "property ''user_lat'' (body ?q') = Some (JNumber 48)
      \<and> property ''user_lat'' (body ?q) = None
      \<and> property ''user_location'' (body ?q)
           = Some (JObject [(''lat'', JNumber 48), (''lng'', JNumber 11), (''accuracy'', JNumber 5),
                        (''timestamp'', JNumber 4)])
      \<and> property ''location_history'' (body ?q)
       = Some (JArray
           [JObject [(''lat'', JNumber 48), (''lng'', JNumber 11), (''accuracy'', JNumber 5),
                     (''timestamp'', JNumber 2)],
            JObject [(''lat'', JNumber 48), (''lng'', JNumber 11), (''accuracy'', JNumber 5),
                     (''timestamp'', JNumber 3)],
            JObject [(''lat'', JNumber 48), (''lng'', JNumber 11), (''accuracy'', JNumber 5),
                     (''timestamp'', JNumber 4)]])"
    unfolding h by (simp add: scenario_sample_def)
  with q q' i1 i2 show ?thesis by (simp only: simp_thms)
qed

text \<open>
  C9 as it was stated fails: in that state the two verification requests differ, the
  enhanced one having no \<open>user_lat\<close> property, and the two acquisitions ask with
  different timeouts.
\<close>

theorem simple_is_subset_counterexample:
  "snd (checkLocation ready_state ready_state)
     \<noteq> snd (checkLocation_simple (simple_view ready_state) (simple_view ready_state))
   \<and> property ''user_lat''
       (body (the (snd (checkLocation_simple (simple_view ready_state) (simple_view ready_state)))))
       = Some (JNumber 48)
   \<and> property ''user_lat'' (body (the (snd (checkLocation ready_state ready_state)))) = None
   \<and> timeout getUserLocation_simple_options = 10000
   \<and> timeout getUserLocation_options = 15000"
proof -
  have b: "building ready_state \<noteq> None"
    and u: "userLocation ready_state = Some (scenario_sample 4)"
    by (simp_all add: ready_state_def initial_state_def)
  have q: "snd (checkLocation ready_state ready_state)
      = Some (check_request ready_state (scenario_sample 4))"
    using b u by (simp add: checkLocation_def)
  have q': "snd (checkLocation_simple (simple_view ready_state) (simple_view ready_state))
      = Some (check_request_simple (simple_view ready_state) (simple_sample (scenario_sample 4)))"
    using b u by (simp add: checkLocation_simple_def simple_view_def)
  have l: "lat (scenario_sample 4) = 48" by (simp add: scenario_sample_def)
  note c = check_requests_compared [of ready_state "scenario_sample 4", unfolded l]
  from c have a1: "property ''user_lat'' (body (check_request ready_state (scenario_sample 4)))
      = None"
    by (elim conjE) assumption
  from c have a2: "property ''user_lat''
      (body (check_request_simple (simple_view ready_state) (simple_sample (scenario_sample 4))))
      = Some (JNumber 48)"
    by (elim conjE) assumption
  have ne: "check_request ready_state (scenario_sample 4)
      \<noteq> check_request_simple (simple_view ready_state) (simple_sample (scenario_sample 4))"
  proof
    assume eq: "check_request ready_state (scenario_sample 4)
      = check_request_simple (simple_view ready_state) (simple_sample (scenario_sample 4))"
    from a1 have "property ''user_lat''
      (body (check_request_simple (simple_view ready_state) (simple_sample (scenario_sample 4))))
      = None"
      unfolding eq .
    with a2 show False by simp
  qed
  have t: "timeout getUserLocation_simple_options = 10000 \<and> timeout getUserLocation_options = 15000"
    by (simp add: getUserLocation_options_def getUserLocation_simple_options_def)
  from ne a1 a2 t show ?thesis unfolding q q' by simp
qed

subsection \<open>A successful building lookup\<close>

text \<open>
  The page keeps \<open>settled\<close>: it holds after mounting and every event preserves it.
\<close>

lemma waiting_single:
  assumes "length ps = 1" and "p \<in> set ps"
  shows "ps = [p]"
  using assms by (cases ps) auto

lemma pending_check_mem: "pending_check ps = Some k \<Longrightarrow> Check_pending k \<in> set ps"
  by (induction ps rule: pending_check.induct) auto

lemma monitoring_frame:
  "loading (fst (startLocationMonitoring r (s, e))) = loading s
   \<and> checkResult (fst (startLocationMonitoring r (s, e))) = checkResult s
   \<and> loading (fst (stopLocationMonitoring r (s, e))) = loading s
   \<and> checkResult (fst (stopLocationMonitoring r (s, e))) = checkResult s
   \<and> loading (fst (watch_reports_position i p now (s, e))) = loading s
   \<and> checkResult (fst (watch_reports_position i p now (s, e))) = checkResult s
   \<and> loading (fst (watch_reports_error i msg (s, e))) = loading s
   \<and> checkResult (fst (watch_reports_error i msg (s, e))) = checkResult s
   \<and> loading (fst (interval_fires i (s, e))) = loading s
   \<and> checkResult (fst (interval_fires i (s, e))) = checkResult s"
  by (simp add: startLocationMonitoring_def stopLocationMonitoring_def
      watch_reports_position_def watch_success_def watch_reports_error_def watch_error_def
      interval_fires_def locating_tick_def split: option.split)

lemma acquisition_frame:
  "loading (fst (getUserLocation_success p now (s, e))) = False
   \<and> checkResult (fst (getUserLocation_success p now (s, e))) = checkResult s
   \<and> loading (fst (getUserLocation_error msg (s, e))) = False
   \<and> checkResult (fst (getUserLocation_error msg (s, e))) = checkResult s
   \<and> checkResult (fst (getUserLocation (s, e))) = checkResult s
   \<and> loading (fst (getUserLocation (s, e))) = (if geolocation e then True else loading s)"
  by (simp add: getUserLocation_success_def getUserLocation_error_def getUserLocation_def
      stopLocatingProgress_def startLocatingProgress_def)

lemma finish_frame:
  "loading (searchBuilding_finish eng out s) = False
   \<and> loading (checkLocation_finish eng out' s) = False
   \<and> checkResult (searchBuilding_finish eng (Ok_data d) s) = None
   \<and> ((\<forall>d. out \<noteq> Ok_data d) \<longrightarrow> checkResult (searchBuilding_finish eng out s) = checkResult s)
   \<and> ((\<forall>d. out' \<noteq> Ok_data d) \<longrightarrow> checkResult (checkLocation_finish eng out' s) = checkResult s)"
  by (cases out; cases out')
     (simp_all add: searchBuilding_finish_def checkLocation_finish_def await_response_def)

lemma settled_mount: "settled (mount e)"
  by (simp add: settled_def mount_def getUserLocation_def startLocatingProgress_def
      initial_state_def)

lemma settled_step:
  assumes "settled w"
  shows "settled (step eng w ev)"
proof (cases ev)
  case (Type_buildingName x)
  with assms show ?thesis by (auto simp: settled_def split: option.splits if_splits)
next
  case (Type_city x)
  with assms show ?thesis by (auto simp: settled_def split: option.splits if_splits)
next
  case (Type_country x)
  with assms show ?thesis by (auto simp: settled_def split: option.splits if_splits)
next
  case Click_searchBuilding
  with assms show ?thesis
    by (auto simp: settled_def searchBuilding_def split: if_splits option.splits)
next
  case Click_getUserLocation
  with assms show ?thesis
    using acquisition_frame [of _ _ "ui w" "browser w"]
    by (auto simp: settled_def split: if_splits option.splits)
next
  case Click_startLocationMonitoring
  with assms show ?thesis
    using monitoring_frame [of "ui w" "ui w" "browser w"]
    by (auto simp: settled_def click_startLocationMonitoring_def split: option.splits if_splits)
next
  case Click_stopLocationMonitoring
  with assms show ?thesis
    using monitoring_frame [of "ui w" "ui w" "browser w"]
    by (auto simp: settled_def click_stopLocationMonitoring_def split: option.splits if_splits)
next
  case Click_checkLocation
  with assms show ?thesis
    by (auto simp: settled_def checkLocation_def split: if_splits option.splits)
next
  case (Lookup_replies out)
  show ?thesis
  proof (cases "Lookup_pending \<in> set (waiting w)")
    case False
    with Lookup_replies assms show ?thesis by simp
  next
    case True
    then have "waiting w \<noteq> []" by auto
    with assms have "length (waiting w) = 1" by (auto simp: settled_def split: if_splits)
    from this True have wl: "waiting w = [Lookup_pending]" by (rule waiting_single)
    show ?thesis
    proof (cases "\<exists>d. out = Ok_data d")
      case True
      then obtain d where "out = Ok_data d" by auto
      with wl Lookup_replies assms finish_frame [of eng out "ui w" _ d] show ?thesis
        by (auto simp: settled_def split: option.splits if_splits)
    next
      case False
      then have "\<forall>d. out \<noteq> Ok_data d" by simp
      moreover from this have "(case out of Ok_data d \<Rightarrow> Suc (lookups w) | _ \<Rightarrow> lookups w) = lookups w"
        by (cases out) simp_all
      ultimately show ?thesis
        using wl Lookup_replies assms finish_frame [of eng out "ui w"]
        by (auto simp: settled_def split: option.splits if_splits)
    qed
  qed
next
  case (Check_replies out)
  show ?thesis
  proof (cases "pending_check (waiting w)")
    case None
    with Check_replies assms show ?thesis by simp
  next
    case (Some k)
    then have mem: "Check_pending k \<in> set (waiting w)" by (rule pending_check_mem)
    then have "waiting w \<noteq> []" by auto
    with assms have "length (waiting w) = 1" by (auto simp: settled_def split: if_splits)
    from this mem have wl: "waiting w = [Check_pending k]" by (rule waiting_single)
    from assms Some have k: "k = lookups w" by (auto simp: settled_def split: option.splits if_splits)
    show ?thesis
    proof (cases "\<exists>d. out = Ok_data d")
      case True
      then obtain d where "out = Ok_data d" by auto
      with wl k Some Check_replies finish_frame [of eng _ "ui w" out] show ?thesis
        by (auto simp: settled_def checkLocation_finish_def await_response_def split: option.splits if_splits)
    next
      case False
      then have "\<forall>d. out \<noteq> Ok_data d" by simp
      moreover from this have "(case out of Ok_data d \<Rightarrow> k | _ \<Rightarrow> result_epoch w) = result_epoch w"
        by (cases out) simp_all
      ultimately show ?thesis
        using wl Some Check_replies assms finish_frame [of eng _ "ui w" out]
        by (auto simp: settled_def split: option.splits if_splits)
    qed
  qed
next
  case (Acquisition_succeeds p now)
  show ?thesis
  proof (cases "Acquisition_pending \<in> set (waiting w)")
    case False
    with Acquisition_succeeds assms show ?thesis by simp
  next
    case True
    then have "waiting w \<noteq> []" by auto
    with assms have "length (waiting w) = 1" by (auto simp: settled_def split: if_splits)
    from this True have wl: "waiting w = [Acquisition_pending]" by (rule waiting_single)
    with Acquisition_succeeds assms acquisition_frame [of p now "ui w" "browser w"] show ?thesis
      by (auto simp: settled_def split: option.splits if_splits)
  qed
next
  case (Acquisition_fails msg)
  show ?thesis
  proof (cases "Acquisition_pending \<in> set (waiting w)")
    case False
    with Acquisition_fails assms show ?thesis by simp
  next
    case True
    then have "waiting w \<noteq> []" by auto
    with assms have "length (waiting w) = 1" by (auto simp: settled_def split: if_splits)
    from this True have wl: "waiting w = [Acquisition_pending]" by (rule waiting_single)
    with Acquisition_fails assms acquisition_frame [of _ _ "ui w" "browser w" msg] show ?thesis
      by (auto simp: settled_def split: option.splits if_splits)
  qed
next
  case (Watch_succeeds i p now)
  with assms show ?thesis
    using monitoring_frame [of _ "ui w" "browser w" i p now]
    by (auto simp: settled_def split: option.splits if_splits)
next
  case (Watch_fails i msg)
  with assms show ?thesis
    using monitoring_frame [of _ "ui w" "browser w" i _ _ msg]
    by (auto simp: settled_def split: option.splits if_splits)
next
  case (Interval_fires i)
  with assms show ?thesis
    using monitoring_frame [of _ "ui w" "browser w" i]
    by (auto simp: settled_def split: option.splits if_splits)
qed

lemma settled_run: "settled w \<Longrightarrow> settled (foldl (step eng) w evs)"
  by (induction evs arbitrary: w) (simp_all add: settled_step)

text \<open>
  C10. A successful lookup stores the building and sets the verification result to null
  in the same step, leaving the current sample and the history as they are. And after
  mounting and any sequence of events of the page, a result that is stored was requested
  after the last successful lookup: no building has been resolved since the request of a
  result on display.
\<close>

theorem searchBuilding_success_clears_result:
  "searchBuilding_finish eng (Ok_data d) s =
     s\<lparr>building := Some d, checkResult := None, mapUrl := Some (map_link eng d),
       loading := False\<rparr>
   \<and> building (searchBuilding_finish eng (Ok_data d) s) = Some d
   \<and> checkResult (searchBuilding_finish eng (Ok_data d) s) = None
   \<and> userLocation (searchBuilding_finish eng (Ok_data d) s) = userLocation s
   \<and> locationHistory (searchBuilding_finish eng (Ok_data d) s) = locationHistory s
   \<and> (checkResult (ui (foldl (step eng) (mount e) evs)) \<noteq> None \<longrightarrow>
        result_epoch (foldl (step eng) (mount e) evs) = lookups (foldl (step eng) (mount e) evs))"
proof -
  have "settled (foldl (step eng) (mount e) evs)"
    by (rule settled_run) (rule settled_mount)
  then have "checkResult (ui (foldl (step eng) (mount e) evs)) \<noteq> None \<longrightarrow>
        result_epoch (foldl (step eng) (mount e) evs) = lookups (foldl (step eng) (mount e) evs)"
    by (auto simp: settled_def)
  then show ?thesis
    by (simp add: searchBuilding_finish_def await_response_def)
qed

text \<open>
  The two visits: after the first the result is on display beside the building it was
  requested for, the typing and the click during the pending verification having done
  nothing; after the lookup of the second visit there is no result.
\<close>

theorem searchBuilding_success_clears_result_witness:
  "checkResult (ui (foldl (step scenario_engine) (mount initial_env) first_visit))
     = Some scenario_result
   \<and> building (ui (foldl (step scenario_engine) (mount initial_env) first_visit))
     = Some scenario_building
   \<and> buildingName (ui (foldl (step scenario_engine) (mount initial_env) first_visit)) = ''Tower''
   \<and> lookups (foldl (step scenario_engine) (mount initial_env) first_visit) = 1
   \<and> result_epoch (foldl (step scenario_engine) (mount initial_env) first_visit) = 1
   \<and> checkResult (ui (foldl (step scenario_engine) (mount initial_env) second_visit)) = None
   \<and> building (ui (foldl (step scenario_engine) (mount initial_env) second_visit))
     = Some other_building
   \<and> lookups (foldl (step scenario_engine) (mount initial_env) second_visit) = 2"
proof -
  have r: "checkResult (ui (foldl (step scenario_engine) (mount initial_env) first_visit))
     = Some scenario_result"
    by code_simp
  have b: "building (ui (foldl (step scenario_engine) (mount initial_env) first_visit))
     = Some scenario_building"
    by code_simp
  have n: "buildingName (ui (foldl (step scenario_engine) (mount initial_env) first_visit)) = ''Tower''"
    by code_simp
  have l: "lookups (foldl (step scenario_engine) (mount initial_env) first_visit) = 1"
    by code_simp
  have r2: "checkResult (ui (foldl (step scenario_engine) (mount initial_env) second_visit)) = None"
    by code_simp
  have b2: "building (ui (foldl (step scenario_engine) (mount initial_env) second_visit))
     = Some other_building"
    by code_simp
  have l2: "lookups (foldl (step scenario_engine) (mount initial_env) second_visit) = 2"
    by code_simp
  from searchBuilding_success_clears_result [of scenario_engine scenario_building initial_state
      initial_env first_visit] r
  have "result_epoch (foldl (step scenario_engine) (mount initial_env) first_visit)
      = lookups (foldl (step scenario_engine) (mount initial_env) first_visit)"
    by simp
  with r b n l r2 b2 l2 show ?thesis by simp
qed

end
